theory Spec2Isabelle
  imports Main "HOL-Library.Sublist" "HOL-Library.Log_Nat"
begin

section \<open>Simple Cart Upsell: a shallow embedding of the storefront and admin logic\<close>

text \<open>
  The development follows the TypeScript sources of the application:
  the storefront loaders (\<^verbatim>\<open>api.storefront.upsells.tsx\<close> and its sibling with collection
  lookup), the tracking action (\<^verbatim>\<open>api.storefront.track.tsx\<close>), the analytics roll-up
  (\<^verbatim>\<open>app.analytics.tsx\<close>), the billing helpers (\<^verbatim>\<open>billing.ts\<close>) and the plan check
  of rule creation (\<^verbatim>\<open>app.rules.new.tsx\<close>).

  JavaScript strings are modelled as \<^typ>\<open>string\<close> (lists of 8-bit characters, which
  covers the identifiers, domains and ASCII punctuation the code inspects); a value that
  may be \<^verbatim>\<open>null\<close> or \<^verbatim>\<open>undefined\<close> is an \<^typ>\<open>'a option\<close>. Exceptions are values of
  a sum type.
\<close>

subsection \<open>JavaScript truthiness and the \<^verbatim>\<open>||\<close> idiom on nullable strings\<close>

definition truthy :: "string option \<Rightarrow> bool" where
  \<comment> \<open>\<^verbatim>\<open>!!s\<close> for a string, \<^verbatim>\<open>null\<close> or \<^verbatim>\<open>undefined\<close>: only a non-empty string is truthy.\<close>
  "truthy s = (case s of None \<Rightarrow> False | Some v \<Rightarrow> v \<noteq> [])"

definition or_else :: "string option \<Rightarrow> string \<Rightarrow> string" where
  \<comment> \<open>\<^verbatim>\<open>s || d\<close> with a string default.\<close>
  "or_else s d = (case s of None \<Rightarrow> d | Some v \<Rightarrow> if v = [] then d else v)"

definition or_null :: "string option \<Rightarrow> string option" where
  \<comment> \<open>\<^verbatim>\<open>s || null\<close>.\<close>
  "or_null s = (case s of None \<Rightarrow> None | Some v \<Rightarrow> if v = [] then None else Some v)"

subsection \<open>Data model: rules and their cached upsell snapshot\<close>

datatype TriggerType = PRODUCT | COLLECTION

record ProductData =
  pd_variantId :: "string option"
  pd_title :: "string option"
  pd_image :: "string option"
  pd_price :: "string option"
  pd_compareAtPrice :: "string option"

record Rule =
  rule_id :: string
  rule_shopId :: string
  rule_name :: string
  isEnabled :: bool
  triggerType :: TriggerType
  triggerProductId :: "string option"
  triggerCollectionId :: "string option"
  upsellProductId :: string
  upsellProductData :: "ProductData option"
  priority :: int

subsection \<open>\<^verbatim>\<open>extractProductId\<close>: the regular expression search\<close>

text \<open>
  \<^verbatim>\<open>gid.match(/gid:\/\/shopify\/Product\/(\d+)/)\<close> searches for the leftmost position at
  which the literal prefix is followed by at least one decimal digit and captures the
  longest run of digits there.
\<close>

definition isDigit :: "char \<Rightarrow> bool" where
  "isDigit c = (c \<in> set ''0123456789'')"

definition gidPrefix :: string where
  "gidPrefix = ''gid://shopify/Product/''"

fun after_prefix :: "string \<Rightarrow> string \<Rightarrow> string option" where
  "after_prefix [] s = Some s"
| "after_prefix (p # ps) [] = None"
| "after_prefix (p # ps) (c # cs) = (if p = c then after_prefix ps cs else None)"

definition match_here :: "string \<Rightarrow> string option" where
  \<comment> \<open>The pattern anchored at the start of the given text; the result is capture group 1.\<close>
  "match_here s =
     (case after_prefix gidPrefix s of
        None \<Rightarrow> None
      | Some rest \<Rightarrow> if takeWhile isDigit rest = [] then None else Some (takeWhile isDigit rest))"

fun regex_search :: "string \<Rightarrow> string option" where
  "regex_search [] = None"
| "regex_search (c # cs) =
     (case match_here (c # cs) of Some d \<Rightarrow> Some d | None \<Rightarrow> regex_search cs)"

definition extractProductId :: "string option \<Rightarrow> string option" where
  "extractProductId gid = (case gid of None \<Rightarrow> None
     | Some g \<Rightarrow> if g = [] then None else regex_search g)"

subsection \<open>The cart matcher\<close>

definition triggerInCart :: "string list \<Rightarrow> Rule \<Rightarrow> bool" where
  \<comment> \<open>\<^verbatim>\<open>triggerNumericId && cartProductIds.includes(triggerNumericId)\<close>\<close>
  "triggerInCart cartProductIds rule =
     (case extractProductId (triggerProductId rule) of
        None \<Rightarrow> False
      | Some triggerNumericId \<Rightarrow>
          triggerNumericId \<noteq> [] \<and> triggerNumericId \<in> set cartProductIds)"

definition upsellInCart :: "string list \<Rightarrow> Rule \<Rightarrow> bool" where
  \<comment> \<open>\<^verbatim>\<open>upsellNumericId && cartProductIds.includes(upsellNumericId)\<close>\<close>
  "upsellInCart cartProductIds rule =
     (case extractProductId (Some (upsellProductId rule)) of
        None \<Rightarrow> False
      | Some upsellNumericId \<Rightarrow>
          upsellNumericId \<noteq> [] \<and> upsellNumericId \<in> set cartProductIds)"

text \<open>
  The inner loop of the COLLECTION branch. \<^verbatim>\<open>getProductCollections\<close> is the external
  lookup (a failed fetch yields the empty list). The second component of the result is
  the list of product ids for which a lookup was issued, in order.
\<close>

fun collectionLoop :: "(string \<Rightarrow> string list) \<Rightarrow> string \<Rightarrow> string list
    \<Rightarrow> bool \<times> string list" where
  "collectionLoop getProductCollections cid [] = (False, [])"
| "collectionLoop getProductCollections cid (productId # rest) =
     (if cid \<in> set (getProductCollections productId) then (True, [productId])
      else (let (m, calls) = collectionLoop getProductCollections cid rest
            in (m, productId # calls)))"

text \<open>
  The matching loop of the loader with collection lookup. The state threaded through the
  loop is \<^verbatim>\<open>matchedRules\<close> and the log of lookups issued so far.
\<close>

fun matchLoop :: "(string \<Rightarrow> string list) \<Rightarrow> string list \<Rightarrow> Rule list
    \<Rightarrow> Rule list \<times> string list \<Rightarrow> Rule list \<times> string list" where
  "matchLoop gpc cartProductIds [] st = st"
| "matchLoop gpc cartProductIds (rule # rules) (matchedRules, lookups) =
     (let (matches, calls) =
            (case triggerType rule of
               PRODUCT \<Rightarrow> (triggerInCart cartProductIds rule, [])
             | COLLECTION \<Rightarrow>
                 collectionLoop gpc (or_else (triggerCollectionId rule) []) cartProductIds)
      in if matches then
           (if upsellInCart cartProductIds rule
            then matchLoop gpc cartProductIds rules (matchedRules, lookups @ calls)
            else matchLoop gpc cartProductIds rules (matchedRules @ [rule], lookups @ calls))
         else matchLoop gpc cartProductIds rules (matchedRules, lookups @ calls))"

definition matchRules :: "(string \<Rightarrow> string list) \<Rightarrow> Rule list \<Rightarrow> string list \<Rightarrow> Rule list" where
  "matchRules gpc rules cartProductIds = fst (matchLoop gpc cartProductIds rules ([], []))"

definition matchLookups :: "(string \<Rightarrow> string list) \<Rightarrow> Rule list \<Rightarrow> string list \<Rightarrow> string list" where
  "matchLookups gpc rules cartProductIds = snd (matchLoop gpc cartProductIds rules ([], []))"

text \<open>
  The matching loop of \<^verbatim>\<open>api.storefront.upsells.tsx\<close>: a COLLECTION rule hits
  \<^verbatim>\<open>continue\<close> before anything else is looked at.
\<close>

fun matchLoopSkip :: "string list \<Rightarrow> Rule list \<Rightarrow> Rule list \<Rightarrow> Rule list" where
  "matchLoopSkip cartProductIds [] matchedRules = matchedRules"
| "matchLoopSkip cartProductIds (rule # rules) matchedRules =
     (case triggerType rule of
        PRODUCT \<Rightarrow>
          (if triggerInCart cartProductIds rule then
             (if upsellInCart cartProductIds rule
              then matchLoopSkip cartProductIds rules matchedRules
              else matchLoopSkip cartProductIds rules (matchedRules @ [rule]))
           else matchLoopSkip cartProductIds rules matchedRules)
      | COLLECTION \<Rightarrow> matchLoopSkip cartProductIds rules matchedRules)"

definition matchRulesSkip :: "Rule list \<Rightarrow> string list \<Rightarrow> Rule list" where
  "matchRulesSkip rules cartProductIds = matchLoopSkip cartProductIds rules []"

subsection \<open>Offer formatting\<close>

record OfferProduct =
  op_id :: string
  op_variantId :: string
  op_title :: string
  op_image :: "string option"
  op_price :: string
  op_compareAtPrice :: "string option"
  op_available :: bool

record Offer =
  offer_ruleId :: string
  offer_product :: OfferProduct

definition snapshot_field :: "ProductData option \<Rightarrow> (ProductData \<Rightarrow> string option) \<Rightarrow> string option" where
  \<comment> \<open>\<^verbatim>\<open>productData?.field\<close>\<close>
  "snapshot_field productData field = (case productData of None \<Rightarrow> None | Some d \<Rightarrow> field d)"

definition maxOffers :: nat where
  "maxOffers = 3"

definition topRules :: "Rule list \<Rightarrow> Rule list" where
  \<comment> \<open>\<^verbatim>\<open>matchedRules.slice(0, maxOffers)\<close>\<close>
  "topRules matchedRules = take maxOffers matchedRules"

definition toOffer :: "Rule \<Rightarrow> Offer" where
  "toOffer rule =
     (let productData = upsellProductData rule in
      \<lparr> offer_ruleId = rule_id rule,
        offer_product =
          \<lparr> op_id = upsellProductId rule,
            op_variantId = or_else (snapshot_field productData pd_variantId) (upsellProductId rule),
            op_title = or_else (snapshot_field productData pd_title) ''Product'',
            op_image = or_null (snapshot_field productData pd_image),
            op_price = or_else (snapshot_field productData pd_price) ''0.00'',
            op_compareAtPrice = or_null (snapshot_field productData pd_compareAtPrice),
            op_available = True \<rparr> \<rparr>)"

definition formatOffers :: "Rule list \<Rightarrow> Offer list" where
  "formatOffers matchedRules = map toOffer (topRules matchedRules)"

subsection \<open>Query string handling\<close>

text \<open>
  \<^verbatim>\<open>productsParam.split(",").map(id => id.trim()).filter(Boolean)\<close>. Characters are the
  8-bit characters of \<^typ>\<open>string\<close>; the white space and line terminators that
  \<^verbatim>\<open>trim\<close> removes are, in that range, the code points 9 to 13, 32 and 160.
\<close>

fun split_comma :: "string \<Rightarrow> string list" where
  "split_comma [] = [[]]"
| "split_comma (c # cs) =
     (if c = CHR '','' then [] # split_comma cs
      else (case split_comma cs of [] \<Rightarrow> [[c]] | piece # pieces \<Rightarrow> (c # piece) # pieces))"

definition isSpace :: "char \<Rightarrow> bool" where
  "isSpace c = (of_char c \<in> set [9, 10, 11, 12, 13, 32, 160 :: nat])"

definition trim :: "string \<Rightarrow> string" where
  "trim s = rev (dropWhile isSpace (rev (dropWhile isSpace s)))"

definition parseProducts :: "string \<Rightarrow> string list" where
  "parseProducts productsParam = filter (\<lambda>id. id \<noteq> []) (map trim (split_comma productsParam))"

subsection \<open>Floating-point rounding of JavaScript numbers\<close>

text \<open>
  A finite JavaScript number is an IEEE 754 binary64 value, here the rational it denotes.
  \<open>fl\<close> rounds a rational to the nearest binary64 value, ties to even, with gradual
  underflow. Overflow to an infinity (a magnitude of \<open>2^1024\<close> and beyond) is not
  represented: the quantities below are list lengths and sums of \<^verbatim>\<open>DECIMAL(10,2)\<close>
  column values.
\<close>

definition pow2 :: "int \<Rightarrow> rat" where
  "pow2 e = (if 0 \<le> e then 2 ^ nat e else 1 / 2 ^ nat (- e))"

definition ilog2 :: "rat \<Rightarrow> int" where
  \<comment> \<open>For \<open>0 < q\<close>: the exponent \<open>e\<close> with \<open>2^e \<le> q < 2^(e+1)\<close>.\<close>
  "ilog2 q = (let (a, b) = quotient_of q; d = bitlen a - bitlen b
              in if pow2 d \<le> q then d else d - 1)"

definition round_half_even :: "rat \<Rightarrow> int" where
  "round_half_even m =
     (let f = \<lfloor>m\<rfloor>; d = m - of_int f
      in if d < 1 / 2 then f else if 1 / 2 < d then f + 1 else if even f then f else f + 1)"

definition fl :: "rat \<Rightarrow> rat" where
  "fl x = (if x = 0 then 0
           else (let e = max (ilog2 \<bar>x\<bar>) (- 1022); ulp = pow2 (e - 52)
                 in of_int (round_half_even (x / ulp)) * ulp))"

definition fadd :: "rat \<Rightarrow> rat \<Rightarrow> rat" where
  "fadd x y = fl (x + y)"

definition fmul :: "rat \<Rightarrow> rat \<Rightarrow> rat" where
  "fmul x y = fl (x * y)"

definition fdiv :: "rat \<Rightarrow> rat \<Rightarrow> rat" where
  \<comment> \<open>Only used with a non-zero divisor.\<close>
  "fdiv x y = fl (x / y)"

subsection \<open>The persistent store\<close>

datatype Plan = FREE | STARTER | PRO

datatype EventType = IMPRESSION | CONVERSION

record Shop =
  shop_id :: string
  shopifyDomain :: string
  accessToken :: string
  currentPlan :: Plan
  freeShippingEnabled :: bool
  freeShippingThreshold :: rat
  currencyCode :: string

record AnalyticsEvent =
  ev_shopId :: string
  ev_ruleId :: string
  ev_eventType :: EventType
  ev_cartToken :: "string option"
  ev_sessionId :: "string option"
  ev_productPrice :: "rat option"

datatype PrismaOp = ShopFindUnique | RuleFindMany | RuleFindUnique | EventFindFirst | EventFindMany | EventCreate

datatype exn = PrismaError | SyntaxError | TypeError

text \<open>
  The tables, and for each kind of Prisma call whether it throws (a persistence failure).
  Generated columns (event ids, timestamps) are left out.
\<close>

record Store =
  shopTable :: "Shop list"
  ruleTable :: "Rule list"
  eventTable :: "AnalyticsEvent list"
  throws :: "PrismaOp \<Rightarrow> bool"

definition shop_findUnique :: "Store \<Rightarrow> string \<Rightarrow> exn + Shop option" where
  "shop_findUnique st domain =
     (if throws st ShopFindUnique then Inl PrismaError
      else Inr (find (\<lambda>s. shopifyDomain s = domain) (shopTable st)))"

definition rule_findMany_enabled :: "Store \<Rightarrow> string \<Rightarrow> exn + Rule list" where
  \<comment> \<open>\<^verbatim>\<open>where: {shopId, isEnabled: true}, orderBy: {priority: "asc"}\<close>; rows of equal
      priority are kept in table order.\<close>
  "rule_findMany_enabled st shopId =
     (if throws st RuleFindMany then Inl PrismaError
      else Inr (sort_key priority (filter (\<lambda>r. rule_shopId r = shopId \<and> isEnabled r) (ruleTable st))))"

definition rule_findUnique :: "Store \<Rightarrow> string \<Rightarrow> string \<Rightarrow> exn + Rule option" where
  "rule_findUnique st ruleId shopId =
     (if throws st RuleFindUnique then Inl PrismaError
      else Inr (find (\<lambda>r. rule_id r = ruleId \<and> rule_shopId r = shopId) (ruleTable st)))"

definition event_findFirst_impression :: "Store \<Rightarrow> string \<Rightarrow> string \<Rightarrow> exn + AnalyticsEvent option" where
  \<comment> \<open>\<^verbatim>\<open>where: {ruleId, eventType: "IMPRESSION", sessionId}\<close>\<close>
  "event_findFirst_impression st ruleId sessionId =
     (if throws st EventFindFirst then Inl PrismaError
      else Inr (find (\<lambda>e. ev_ruleId e = ruleId \<and> ev_eventType e = IMPRESSION
                            \<and> ev_sessionId e = Some sessionId) (eventTable st)))"

definition event_create :: "Store \<Rightarrow> AnalyticsEvent \<Rightarrow> exn + Store" where
  "event_create st e =
     (if throws st EventCreate then Inl PrismaError
      else Inr (st\<lparr>eventTable := eventTable st @ [e]\<rparr>))"

subsection \<open>HTTP responses\<close>

datatype Body =
    ErrorBody string
  | OffersBody "Offer list"
  | ShippingBody bool rat "string option"
  | TrackedBody bool bool "string option"

record Response =
  status :: nat
  headers :: "(string \<times> string) list"
  body :: Body

definition cors :: "(string \<times> string) list" where
  "cors = [(''Access-Control-Allow-Origin'', ''*'')]"

definition json :: "nat \<Rightarrow> (string \<times> string) list \<Rightarrow> Body \<Rightarrow> Response" where
  "json code hs b = \<lparr> status = code, headers = hs, body = b \<rparr>"

subsection \<open>\<^verbatim>\<open>GET /upsells\<close>: the storefront loaders\<close>

record UpsellsQuery =
  q_shop :: "string option"
  q_products :: "string option"
  q_cartToken :: "string option"

definition noCache :: "(string \<times> string) list" where
  "noCache = cors @ [(''Cache-Control'', ''no-cache, no-store, must-revalidate'')]"

text \<open>
  The loader of \<^verbatim>\<open>app/routes/api.storefront.upsells.tsx\<close>. A test \<^verbatim>\<open>if (!x)\<close> on a
  nullable string is the case \<open>or_null x = None\<close>.
\<close>

definition loader_upsells :: "Store \<Rightarrow> UpsellsQuery \<Rightarrow> Response" where
  "loader_upsells st q =
     (case or_null (q_shop q) of
        None \<Rightarrow> json 400 cors (ErrorBody ''Missing shop parameter'')
      | Some shop \<Rightarrow>
     (case or_null (q_products q) of
        None \<Rightarrow> json 200 cors (OffersBody [])
      | Some productsParam \<Rightarrow>
     (let cartProductIds = parseProducts productsParam in
      if length cartProductIds = 0 then json 200 cors (OffersBody [])
      else
        (case shop_findUnique st shop of
           Inl e \<Rightarrow> json 500 cors (OffersBody [])
         | Inr None \<Rightarrow> json 200 cors (OffersBody [])
         | Inr (Some shopRecord) \<Rightarrow>
             (case rule_findMany_enabled st (shop_id shopRecord) of
                Inl e \<Rightarrow> json 500 cors (OffersBody [])
              | Inr rules \<Rightarrow>
                  json 200 noCache
                    (OffersBody (formatOffers (matchRulesSkip rules cartProductIds))))))))"

text \<open>
  The sibling loader that looks collections up. \<open>fetchCollections shop token productId\<close>
  is the platform call made by \<^verbatim>\<open>getProductCollections\<close>; its own
  \<^verbatim>\<open>try\<close>/\<^verbatim>\<open>catch\<close> turns a failure into the empty list.
\<close>

definition loader_upsells_collections ::
    "(string \<Rightarrow> string \<Rightarrow> string \<Rightarrow> string list) \<Rightarrow> Store \<Rightarrow> UpsellsQuery \<Rightarrow> Response" where
  "loader_upsells_collections fetchCollections st q =
     (case or_null (q_shop q) of
        None \<Rightarrow> json 400 cors (ErrorBody ''Missing shop parameter'')
      | Some shop \<Rightarrow>
     (case or_null (q_products q) of
        None \<Rightarrow> json 200 cors (OffersBody [])
      | Some productsParam \<Rightarrow>
     (let cartProductIds = parseProducts productsParam in
      if length cartProductIds = 0 then json 200 cors (OffersBody [])
      else
        (case shop_findUnique st shop of
           Inl e \<Rightarrow> json 500 cors (OffersBody [])
         | Inr None \<Rightarrow> json 200 cors (OffersBody [])
         | Inr (Some shopRecord) \<Rightarrow>
             (case rule_findMany_enabled st (shop_id shopRecord) of
                Inl e \<Rightarrow> json 500 cors (OffersBody [])
              | Inr rules \<Rightarrow>
                  (let getProductCollections = fetchCollections shop (accessToken shopRecord)
                   in json 200 noCache
                        (OffersBody (formatOffers
                           (matchRules getProductCollections rules cartProductIds)))))))))"

subsection \<open>\<^verbatim>\<open>GET /shipping\<close>\<close>

definition loader_shipping :: "Store \<Rightarrow> string option \<Rightarrow> Response" where
  \<comment> \<open>\<^verbatim>\<open>parseFloat(threshold.toString())\<close> is the binary64 value nearest to the decimal.\<close>
  "loader_shipping st shopParam =
     (case or_null shopParam of
        None \<Rightarrow> json 400 cors (ErrorBody ''Missing shop parameter'')
      | Some shop \<Rightarrow>
        (case shop_findUnique st shop of
           Inl e \<Rightarrow> json 500 cors (ShippingBody False 0 None)
         | Inr None \<Rightarrow> json 200 cors (ShippingBody False 0 (Some ''USD''))
         | Inr (Some shopRecord) \<Rightarrow>
             json 200 (cors @ [(''Cache-Control'', ''public, max-age=300'')])
               (ShippingBody (freeShippingEnabled shopRecord)
                  (fl (freeShippingThreshold shopRecord))
                  (Some (currencyCode shopRecord)))))"

subsection \<open>\<^verbatim>\<open>POST /track\<close>: recording analytics events\<close>

datatype JsonPrice = PriceNum rat | PriceStr string

record TrackFields =
  t_eventType :: "string option"
  t_ruleId :: "string option"
  t_shopDomain :: "string option"
  t_cartToken :: "string option"
  t_sessionId :: "string option"
  t_productPrice :: "JsonPrice option"

record TrackRequest =
  t_method :: string
  t_json :: "TrackFields option"  \<comment> \<open>\<open>None\<close>: the body is not JSON and \<^verbatim>\<open>request.json()\<close> throws\<close>

definition truthy_price :: "JsonPrice \<Rightarrow> bool" where
  "truthy_price p = (case p of PriceNum x \<Rightarrow> x \<noteq> 0 | PriceStr s \<Rightarrow> s \<noteq> [])"

definition parseFloat_price :: "(string \<Rightarrow> rat) \<Rightarrow> JsonPrice \<Rightarrow> rat" where
  \<comment> \<open>\<^verbatim>\<open>parseFloat\<close> on a number gives the number back; on a string it is the builtin,
      taken as a parameter (for strings that denote a finite number).\<close>
  "parseFloat_price parseFloat p = (case p of PriceNum x \<Rightarrow> x | PriceStr s \<Rightarrow> parseFloat s)"

definition storedPrice :: "(string \<Rightarrow> rat) \<Rightarrow> EventType \<Rightarrow> JsonPrice option \<Rightarrow> rat option" where
  \<comment> \<open>\<^verbatim>\<open>eventType === "CONVERSION" && productPrice ? parseFloat(productPrice) : null\<close>\<close>
  "storedPrice parseFloat eventType productPrice =
     (case productPrice of
        None \<Rightarrow> None
      | Some p \<Rightarrow> if eventType = CONVERSION \<and> truthy_price p
                  then Some (parseFloat_price parseFloat p) else None)"

definition eventType_of :: "string \<Rightarrow> EventType option" where
  \<comment> \<open>\<^verbatim>\<open>["IMPRESSION", "CONVERSION"].includes(eventType)\<close>\<close>
  "eventType_of s = (if s = ''IMPRESSION'' then Some IMPRESSION
                     else if s = ''CONVERSION'' then Some CONVERSION else None)"

definition internalError :: Response where
  "internalError = json 500 cors (ErrorBody ''Internal server error'')"

definition createEvent :: "(string \<Rightarrow> rat) \<Rightarrow> Store \<Rightarrow> Shop \<Rightarrow> string \<Rightarrow> EventType \<Rightarrow> TrackFields
    \<Rightarrow> Response \<times> Store" where
  "createEvent parseFloat st shopRecord ruleId eventType b =
     (case event_create st
        \<lparr> ev_shopId = shop_id shopRecord,
          ev_ruleId = ruleId,
          ev_eventType = eventType,
          ev_cartToken = or_null (t_cartToken b),
          ev_sessionId = or_null (t_sessionId b),
          ev_productPrice = storedPrice parseFloat eventType (t_productPrice b) \<rparr> of
        Inl e \<Rightarrow> (internalError, st)
      | Inr st' \<Rightarrow> (json 200 cors (TrackedBody True True None), st'))"

definition dedupAndCreate :: "(string \<Rightarrow> rat) \<Rightarrow> Store \<Rightarrow> Shop \<Rightarrow> string \<Rightarrow> EventType \<Rightarrow> TrackFields
    \<Rightarrow> Response \<times> Store" where
  \<comment> \<open>From \<^verbatim>\<open>if (eventType === "IMPRESSION" && sessionId)\<close> to the end of the \<^verbatim>\<open>try\<close> block.\<close>
  "dedupAndCreate parseFloat st shopRecord ruleId eventType b =
     (case (eventType, or_null (t_sessionId b)) of
        (IMPRESSION, Some sessionId) \<Rightarrow>
          (case event_findFirst_impression st ruleId sessionId of
             Inl e \<Rightarrow> (internalError, st)
           | Inr (Some existingImpression) \<Rightarrow>
               (json 200 cors (TrackedBody True False (Some ''duplicate'')), st)
           | Inr None \<Rightarrow> createEvent parseFloat st shopRecord ruleId eventType b)
      | _ \<Rightarrow> createEvent parseFloat st shopRecord ruleId eventType b)"

definition action_track :: "(string \<Rightarrow> rat) \<Rightarrow> Store \<Rightarrow> TrackRequest \<Rightarrow> Response \<times> Store" where
  "action_track parseFloat st req =
     (if t_method req \<noteq> ''POST'' then (json 405 cors (ErrorBody ''Method not allowed''), st)
      else
        (case t_json req of
           None \<Rightarrow> (internalError, st)
         | Some b \<Rightarrow>
             (case (or_null (t_eventType b), or_null (t_ruleId b), or_null (t_shopDomain b)) of
                (Some eventTypeStr, Some ruleId, Some shopDomain) \<Rightarrow>
                  (case eventType_of eventTypeStr of
                     None \<Rightarrow> (json 400 cors (ErrorBody ''Invalid event type''), st)
                   | Some eventType \<Rightarrow>
                       (case shop_findUnique st shopDomain of
                          Inl e \<Rightarrow> (internalError, st)
                        | Inr None \<Rightarrow> (json 404 cors (ErrorBody ''Shop not found''), st)
                        | Inr (Some shopRecord) \<Rightarrow>
                            (case rule_findUnique st ruleId (shop_id shopRecord) of
                               Inl e \<Rightarrow> (internalError, st)
                             | Inr None \<Rightarrow> (json 404 cors (ErrorBody ''Rule not found''), st)
                             | Inr (Some rule) \<Rightarrow>
                                 dedupAndCreate parseFloat st shopRecord ruleId eventType b)))
              | _ \<Rightarrow> (json 400 cors (ErrorBody ''Missing required fields''), st))))"

text \<open>Running a sequence of tracking requests, each on the store the previous one left.\<close>

fun track_all :: "(string \<Rightarrow> rat) \<Rightarrow> Store \<Rightarrow> TrackRequest list \<Rightarrow> Store" where
  "track_all parseFloat st [] = st"
| "track_all parseFloat st (r # rs) = track_all parseFloat (snd (action_track parseFloat st r)) rs"

subsection \<open>Analytics roll-up (\<^verbatim>\<open>app.analytics.tsx\<close>, summary metrics of the loader)\<close>

record Summary =
  totalImpressions :: nat
  totalConversions :: nat
  conversionRate :: rat
  totalRevenue :: rat

definition priceNumber :: "AnalyticsEvent \<Rightarrow> rat" where
  \<comment> \<open>\<^verbatim>\<open>Number(event.productPrice || 0)\<close>: a stored decimal becomes the nearest binary64 value.\<close>
  "priceNumber event = (case ev_productPrice event of None \<Rightarrow> 0 | Some d \<Rightarrow> fl d)"

definition computeSummary :: "AnalyticsEvent list \<Rightarrow> Summary" where
  "computeSummary events =
     (let impressionEvents = filter (\<lambda>e. ev_eventType e = IMPRESSION) events;
          conversionEvents = filter (\<lambda>e. ev_eventType e = CONVERSION) events;
          totalImpressions = length impressionEvents;
          totalConversions = length conversionEvents
      in \<lparr> totalImpressions = totalImpressions,
           totalConversions = totalConversions,
           conversionRate =
             (if totalImpressions > 0
              then fmul (fdiv (of_nat totalConversions) (of_nat totalImpressions)) 100
              else 0),
           totalRevenue = foldl (\<lambda>sum event. fadd sum (priceNumber event)) 0 conversionEvents \<rparr>)"

subsection \<open>Billing plans and the plan gate (\<^verbatim>\<open>billing.ts\<close>)\<close>

record PlanConfig =
  plan_name :: string
  plan_price :: rat
  plan_maxRules :: nat
  plan_features :: "string list"

definition BILLING_PLANS :: "Plan \<Rightarrow> PlanConfig option" where
  \<comment> \<open>The object has the keys \<^verbatim>\<open>FREE\<close> and \<^verbatim>\<open>PRO\<close> only.\<close>
  "BILLING_PLANS p = (case p of
       FREE \<Rightarrow> Some \<lparr> plan_name = ''Free'', plan_price = 0, plan_maxRules = 1,
                      plan_features = [''1 active upsell rule'', ''Basic analytics'',
                                       ''Cart page upsells'', ''Email support''] \<rparr>
     | PRO \<Rightarrow> Some \<lparr> plan_name = ''Pro'', plan_price = 999 / 100, plan_maxRules = 999,
                     plan_features = [''Unlimited upsell rules'', ''Advanced analytics'',
                                      ''Cart page upsells'', ''Discount badges'',
                                      ''Priority support''] \<rparr>
     | STARTER \<Rightarrow> None)"

record LineItem =
  li_amount :: "string option"  \<comment> \<open>\<^verbatim>\<open>item.plan?.pricingDetails?.price?.amount\<close>\<close>

record Subscription =
  sub_id :: string
  sub_status :: string
  sub_lineItems :: "LineItem list option"

definition hasActivePaidSubscription :: "(string \<Rightarrow> rat) \<Rightarrow> Subscription option \<Rightarrow> bool" where
  "hasActivePaidSubscription parseFloat subscription =
     (case subscription of
        None \<Rightarrow> False
      | Some sub \<Rightarrow>
          sub_status sub = ''ACTIVE'' \<and>
          (case sub_lineItems sub of
             None \<Rightarrow> False
           | Some items \<Rightarrow>
               list_ex (\<lambda>item. case or_null (li_amount item) of
                                  None \<Rightarrow> False
                                | Some price \<Rightarrow> parseFloat price > 0) items))"

definition getCurrentPlan :: "(string \<Rightarrow> rat) \<Rightarrow> Subscription option \<Rightarrow> Plan" where
  "getCurrentPlan parseFloat subscription =
     (if hasActivePaidSubscription parseFloat subscription then PRO else FREE)"

datatype Action = CreateRule

record Permission =
  allowed :: bool
  reason :: "string option"

definition digit_char :: "nat \<Rightarrow> char" where
  "digit_char d = char_of (of_char CHR ''0'' + d)"

fun show_nat :: "nat \<Rightarrow> string" where
  \<comment> \<open>The decimal numeral that string interpolation produces for a non-negative integer.\<close>
  "show_nat n = (if n < 10 then [digit_char n] else show_nat (n div 10) @ [digit_char (n mod 10)])"

declare show_nat.simps [simp del]

definition limitReason :: "PlanConfig \<Rightarrow> string" where
  "limitReason plan =
     ''You'' @ [CHR 0x27] @ ''ve reached the maximum of '' @ show_nat (plan_maxRules plan)
       @ '' rule(s) on the '' @ plan_name plan
       @ '' plan. Upgrade to Pro for unlimited rules.''"

definition canPerformAction :: "Plan \<Rightarrow> Action \<Rightarrow> nat option \<Rightarrow> exn + Permission" where
  \<comment> \<open>Reading \<^verbatim>\<open>plan.maxRules\<close> of a missing key is a \<^verbatim>\<open>TypeError\<close>.\<close>
  "canPerformAction planKey action currentCount =
     (let plan = BILLING_PLANS planKey in
      case action of CreateRule \<Rightarrow>
        (case currentCount of
           None \<Rightarrow> Inr \<lparr> allowed = True, reason = None \<rparr>
         | Some n \<Rightarrow>
             (case plan of
                None \<Rightarrow> Inl TypeError
              | Some cfg \<Rightarrow>
                  if n \<ge> plan_maxRules cfg
                  then Inr \<lparr> allowed = False, reason = Some (limitReason cfg) \<rparr>
                  else Inr \<lparr> allowed = True, reason = None \<rparr>)))"

subsection \<open>The plan check of rule creation (\<^verbatim>\<open>app.rules.new.tsx\<close>)\<close>

record Admin =
  activeSubscriptions :: "Subscription list"  \<comment> \<open>the billing collaborator's live state\<close>

definition getCurrentSubscription :: "Admin \<Rightarrow> Subscription option" where
  "getCurrentSubscription admin =
     (case activeSubscriptions admin of [] \<Rightarrow> None | sub # _ \<Rightarrow> Some sub)"

record NewRuleForm =
  f_name :: "string option"
  f_triggerType :: "string option"
  f_triggerProductId :: "string option"
  f_triggerCollectionId :: "string option"
  f_upsellProductId :: "string option"
  f_isEnabled :: "string option"

record NewRuleErrors =
  err_name :: "string option"
  err_triggerType :: "string option"
  err_triggerProductId :: "string option"
  err_triggerCollectionId :: "string option"
  err_upsellProductId :: "string option"
  err_plan :: "string option"

definition enabledRules :: "Store \<Rightarrow> Shop \<Rightarrow> Rule list" where
  \<comment> \<open>\<^verbatim>\<open>include: {rules: {where: {isEnabled: true}}}\<close>\<close>
  "enabledRules st shopRecord =
     filter (\<lambda>r. rule_shopId r = shop_id shopRecord \<and> isEnabled r) (ruleTable st)"

definition canCreateRule :: "Store \<Rightarrow> Shop \<Rightarrow> bool" where
  \<comment> \<open>The loader: \<^verbatim>\<open>shopRecord.currentPlan !== "FREE" || shopRecord.rules.length < 1\<close>\<close>
  "canCreateRule st shopRecord =
     (currentPlan shopRecord \<noteq> FREE \<or> length (enabledRules st shopRecord) < 1)"

definition validateNewRule :: "Admin \<Rightarrow> Store \<Rightarrow> Shop \<Rightarrow> NewRuleForm \<Rightarrow> NewRuleErrors" where
  \<comment> \<open>The validation block of the action, up to \<^verbatim>\<open>if (Object.keys(errors).length > 0)\<close>.
      The \<open>admin\<close> client is in scope there and is not consulted.\<close>
  "validateNewRule admin st shopRecord form =
     (let isEnabledFlag = (f_isEnabled form = Some ''true'');
          isProduct = (f_triggerType form = Some ''PRODUCT'');
          isCollection = (f_triggerType form = Some ''COLLECTION'')
      in \<lparr> err_name =
             (case or_null (f_name form) of
                None \<Rightarrow> Some ''Rule name is required''
              | Some name \<Rightarrow> if length (trim name) = 0 then Some ''Rule name is required'' else None),
           err_triggerType =
             (if \<not> truthy (f_triggerType form) then Some ''Trigger type is required'' else None),
           err_triggerProductId =
             (if isProduct \<and> \<not> truthy (f_triggerProductId form)
              then Some ''Trigger product is required'' else None),
           err_triggerCollectionId =
             (if isCollection \<and> \<not> truthy (f_triggerCollectionId form)
              then Some ''Trigger collection is required'' else None),
           err_upsellProductId =
             (if isProduct \<and> f_triggerProductId form = f_upsellProductId form
              then Some ''Trigger and upsell must be different products''
              else if \<not> truthy (f_upsellProductId form)
              then Some ''Upsell product is required'' else None),
           err_plan =
             (if currentPlan shopRecord = FREE \<and> length (enabledRules st shopRecord) \<ge> 1
                 \<and> isEnabledFlag
              then Some ''Free plan allows only 1 active rule. Upgrade to create more.''
              else None) \<rparr>)"

definition hasErrors :: "NewRuleErrors \<Rightarrow> bool" where
  \<comment> \<open>\<^verbatim>\<open>Object.keys(errors).length > 0\<close>\<close>
  "hasErrors errors =
     (err_name errors \<noteq> None \<or> err_triggerType errors \<noteq> None
      \<or> err_triggerProductId errors \<noteq> None \<or> err_triggerCollectionId errors \<noteq> None
      \<or> err_upsellProductId errors \<noteq> None \<or> err_plan errors \<noteq> None)"

definition planGateRejects :: "Admin \<Rightarrow> Store \<Rightarrow> Shop \<Rightarrow> NewRuleForm \<Rightarrow> bool" where
  \<comment> \<open>Whether the action sets \<^verbatim>\<open>errors.plan\<close> (and so answers 400).\<close>
  "planGateRejects admin st shopRecord form =
     (err_plan (validateNewRule admin st shopRecord form) \<noteq> None)"

datatype NewRuleOutcome =
    ShopNotFound  \<comment> \<open>status 404\<close>
  | Rejected NewRuleErrors  \<comment> \<open>status 400 with the error map\<close>
  | Proceeds  \<comment> \<open>validation passed: the action goes on to fetch product data and create the rule\<close>

definition newRuleAction :: "Admin \<Rightarrow> Store \<Rightarrow> string \<Rightarrow> NewRuleForm \<Rightarrow> exn + NewRuleOutcome" where
  \<comment> \<open>The action up to the end of validation, for the authenticated shop domain. The shop
      lookup is outside any \<^verbatim>\<open>try\<close>, so a failure of the store propagates.\<close>
  "newRuleAction admin st shop form =
     (case shop_findUnique st shop of
        Inl e \<Rightarrow> Inl e
      | Inr None \<Rightarrow> Inr ShopNotFound
      | Inr (Some shopRecord) \<Rightarrow>
          (let errors = validateNewRule admin st shopRecord form
           in if hasErrors errors then Inr (Rejected errors) else Inr Proceeds))"

subsection \<open>Example data\<close>

text \<open>
  The end-to-end scenario: rule A (PRODUCT trigger P1 = 101, upsell P2 = 102, priority 0)
  and rule B (COLLECTION trigger C1, upsell P3 = 103, priority 1); the cart holds P1 and P3.
\<close>

definition ruleA :: Rule where
  "ruleA = \<lparr> rule_id = ''rA'', rule_shopId = ''s1'', rule_name = ''A'', isEnabled = True,
             triggerType = PRODUCT, triggerProductId = Some ''gid://shopify/Product/101'',
             triggerCollectionId = None, upsellProductId = ''gid://shopify/Product/102'',
             upsellProductData = Some \<lparr> pd_variantId = None, pd_title = Some ''Mug'',
               pd_image = None, pd_price = Some ''1500'', pd_compareAtPrice = None \<rparr>,
             priority = 0 \<rparr>"

definition ruleB :: Rule where
  "ruleB = \<lparr> rule_id = ''rB'', rule_shopId = ''s1'', rule_name = ''B'', isEnabled = True,
             triggerType = COLLECTION, triggerProductId = None,
             triggerCollectionId = Some ''gid://shopify/Collection/1'',
             upsellProductId = ''gid://shopify/Product/103'',
             upsellProductData = None, priority = 1 \<rparr>"

definition ruleC :: Rule where
  \<comment> \<open>As rule B, but upselling a product that is not in the cart.\<close>
  "ruleC = ruleB \<lparr> rule_id := ''rC'', rule_name := ''C'',
                   upsellProductId := ''gid://shopify/Product/104'', priority := 2 \<rparr>"

definition exampleCart :: "string list" where
  "exampleCart = [''101'', ''103'']"

definition exampleCollections :: "string \<Rightarrow> string list" where
  \<comment> \<open>Product 103 belongs to collection C1; nothing else is in any collection.\<close>
  "exampleCollections productId =
     (if productId = ''103'' then [''gid://shopify/Collection/1''] else [])"

definition trackRequest :: "string \<Rightarrow> string \<Rightarrow> string \<Rightarrow> string option \<Rightarrow> string option
    \<Rightarrow> JsonPrice option \<Rightarrow> TrackRequest" where
  \<comment> \<open>A POST whose JSON body carries the given fields.\<close>
  "trackRequest eventType ruleId shopDomain cartToken sessionId productPrice =
     \<lparr> t_method = ''POST'',
       t_json = Some \<lparr> t_eventType = Some eventType, t_ruleId = Some ruleId,
                       t_shopDomain = Some shopDomain, t_cartToken = cartToken,
                       t_sessionId = sessionId, t_productPrice = productPrice \<rparr> \<rparr>"

definition newEvent :: "Shop \<Rightarrow> string \<Rightarrow> EventType \<Rightarrow> string option \<Rightarrow> string option
    \<Rightarrow> rat option \<Rightarrow> AnalyticsEvent" where
  "newEvent shopRecord ruleId eventType cartToken sessionId price =
     \<lparr> ev_shopId = shop_id shopRecord, ev_ruleId = ruleId, ev_eventType = eventType,
       ev_cartToken = cartToken, ev_sessionId = sessionId, ev_productPrice = price \<rparr>"

definition exampleShop :: Shop where
  "exampleShop = \<lparr> shop_id = ''s1'', shopifyDomain = ''demo.myshopify.com'',
                   accessToken = ''token'', currentPlan = FREE, freeShippingEnabled = True,
                   freeShippingThreshold = 4999 / 100, currencyCode = ''EUR'' \<rparr>"

definition exampleStore :: Store where
  "exampleStore = \<lparr> shopTable = [exampleShop], ruleTable = [ruleA, ruleB, ruleC],
                    eventTable = [], throws = (\<lambda>_. False) \<rparr>"

definition exampleParseFloat :: "string \<Rightarrow> rat" where
  \<comment> \<open>The builtin on the two strings the examples use.\<close>
  "exampleParseFloat s = (if s = ''15.00'' then 15 else if s = ''9.99'' then fl (999 / 100) else 0)"

definition exampleEvents :: "AnalyticsEvent list" where
  \<comment> \<open>Ten impressions in ten sessions and two conversions, of 500 and 1500 minor units.\<close>
  "exampleEvents =
     map (\<lambda>s. newEvent exampleShop ''rA'' IMPRESSION None (Some s) None)
       [''a'', ''b'', ''c'', ''d'', ''e'', ''f'', ''g'', ''h'', ''i'', ''j'']
     @ [newEvent exampleShop ''rA'' CONVERSION None (Some ''a'') (Some 500),
        newEvent exampleShop ''rA'' CONVERSION None (Some ''b'') (Some 1500)]"

definition exampleConversions :: "AnalyticsEvent list" where
  \<comment> \<open>Conversions priced 500, 1500 and null, and no impression.\<close>
  "exampleConversions =
     [newEvent exampleShop ''rA'' CONVERSION None (Some ''a'') (Some 500),
      newEvent exampleShop ''rA'' CONVERSION None (Some ''b'') (Some 1500),
      newEvent exampleShop ''rA'' CONVERSION None None None]"

definition failingStore :: "PrismaOp \<Rightarrow> Store" where
  \<comment> \<open>The example store with one kind of Prisma call throwing.\<close>
  "failingStore failing = exampleStore \<lparr> throws := (\<lambda>call. call = failing) \<rparr>"

definition upsellsQuery :: "string option \<Rightarrow> string option \<Rightarrow> UpsellsQuery" where
  "upsellsQuery shop products = \<lparr> q_shop = shop, q_products = products, q_cartToken = None \<rparr>"

definition exampleForm :: NewRuleForm where
  \<comment> \<open>A well-formed, enabled PRODUCT rule.\<close>
  "exampleForm = \<lparr> f_name = Some ''Coffee + Mug'', f_triggerType = Some ''PRODUCT'',
                   f_triggerProductId = Some ''gid://shopify/Product/201'',
                   f_triggerCollectionId = None,
                   f_upsellProductId = Some ''gid://shopify/Product/202'',
                   f_isEnabled = Some ''true'' \<rparr>"

definition paidSubscription :: Subscription where
  "paidSubscription = \<lparr> sub_id = ''gid://shopify/AppSubscription/1'', sub_status = ''ACTIVE'',
                        sub_lineItems = Some [\<lparr> li_amount = Some ''9.99'' \<rparr>] \<rparr>"

definition storeWithPlan :: "Plan \<Rightarrow> Store" where
  \<comment> \<open>The example store with the shop row's stored plan replaced.\<close>
  "storeWithPlan p = exampleStore \<lparr> shopTable := [exampleShop \<lparr> currentPlan := p \<rparr>] \<rparr>"

section \<open>Properties\<close>

subsection \<open>The identifier pattern\<close>








subsection \<open>The matching loops\<close>

lemma matchLoop_fst:
  "fst (matchLoop gpc cart rules (acc, lk)) = acc @ filter (\<lambda>r.
      (case triggerType r of
         PRODUCT \<Rightarrow> triggerInCart cart r
       | COLLECTION \<Rightarrow> fst (collectionLoop gpc (or_else (triggerCollectionId r) []) cart))
      \<and> \<not> upsellInCart cart r) rules"
  by (induction rules arbitrary: acc lk) (auto split: TriggerType.splits prod.splits)

lemma matchLoopSkip_eq:
  "matchLoopSkip cart rules acc = acc @ filter (\<lambda>r.
      triggerType r = PRODUCT \<and> triggerInCart cart r \<and> \<not> upsellInCart cart r) rules"
  by (induction rules arbitrary: acc) (auto split: TriggerType.splits)

lemma matchRules_filter:
  "matchRules gpc rules cart = filter (\<lambda>r.
      (case triggerType r of
         PRODUCT \<Rightarrow> triggerInCart cart r
       | COLLECTION \<Rightarrow> fst (collectionLoop gpc (or_else (triggerCollectionId r) []) cart))
      \<and> \<not> upsellInCart cart r) rules"
  by (simp add: matchRules_def matchLoop_fst)




subsection \<open>Collection triggers\<close>

lemma collectionLoop_fst:
  "fst (collectionLoop gpc cid cart) \<longleftrightarrow> (\<exists>p\<in>set cart. cid \<in> set (gpc p))"
  by (induction cart) (auto split: prod.splits)

lemma collectionLoop_snd:
  "snd (collectionLoop gpc cid cart) =
     takeWhile (\<lambda>p. cid \<notin> set (gpc p)) cart @ take 1 (dropWhile (\<lambda>p. cid \<notin> set (gpc p)) cart)"
  by (induction cart) (auto split: prod.splits)

lemma matchLoop_snd:
  "snd (matchLoop gpc cart rules (acc, lk)) = lk @ concat (map (\<lambda>r.
      case triggerType r of
         PRODUCT \<Rightarrow> []
       | COLLECTION \<Rightarrow> snd (collectionLoop gpc (or_else (triggerCollectionId r) []) cart)) rules)"
  by (induction rules arbitrary: acc lk) (auto split: TriggerType.splits prod.splits)

lemma matchRulesSkip_no_collection:
  "triggerType r = COLLECTION \<Longrightarrow> r \<notin> set (matchRulesSkip rules cart)"
  by (simp add: matchRulesSkip_def matchLoopSkip_eq)

lemma matchRules_collection_mem:
  "triggerType r = COLLECTION \<Longrightarrow>
     r \<in> set (matchRules gpc rules cart) \<longleftrightarrow>
       r \<in> set rules \<and> (\<exists>p\<in>set cart. or_else (triggerCollectionId r) [] \<in> set (gpc p))
         \<and> \<not> upsellInCart cart r"
  by (auto simp: matchRules_filter collectionLoop_fst)

lemma example_facts:
  "triggerType ruleA = PRODUCT" "triggerType ruleB = COLLECTION" "triggerType ruleC = COLLECTION"
  "triggerCollectionId ruleB = Some ''gid://shopify/Collection/1''"
  "triggerCollectionId ruleC = Some ''gid://shopify/Collection/1''"
  "triggerInCart exampleCart ruleA" "\<not> upsellInCart exampleCart ruleA"
  "upsellInCart exampleCart ruleB" "\<not> upsellInCart exampleCart ruleC"
  "collectionLoop exampleCollections ''gid://shopify/Collection/1'' exampleCart
     = (True, [''101'', ''103''])"
  by (simp_all add: ruleA_def ruleB_def ruleC_def upsellInCart_def triggerInCart_def
      exampleCart_def extractProductId_def match_here_def gidPrefix_def isDigit_def
      exampleCollections_def)

text \<open>
  C2 (as amended). In the loader that looks collections up, the inner loop sets the match
  flag of a COLLECTION rule exactly when some cart product's collections contain the
  rule's trigger collection id (\<^verbatim>\<open>''\<close> when the id is null); it issues one lookup per
  cart product, in cart order, and stops after the first product that matches. Lookups are
  issued for COLLECTION rules only. Such a rule is returned exactly when it is matched and
  its upsell product is not in the cart. The loader of \<^verbatim>\<open>api.storefront.upsells.tsx\<close>
  never returns a COLLECTION rule.
\<close>

theorem collection_rules:
  "(fst (collectionLoop gpc cid cart) \<longleftrightarrow> (\<exists>p\<in>set cart. cid \<in> set (gpc p)))
   \<and> snd (collectionLoop gpc cid cart) =
       takeWhile (\<lambda>p. cid \<notin> set (gpc p)) cart @ take 1 (dropWhile (\<lambda>p. cid \<notin> set (gpc p)) cart)
   \<and> matchLookups gpc rules cart = concat (map (\<lambda>r.
        case triggerType r of
          PRODUCT \<Rightarrow> []
        | COLLECTION \<Rightarrow> snd (collectionLoop gpc (or_else (triggerCollectionId r) []) cart)) rules)
   \<and> (triggerType r = COLLECTION \<longrightarrow>
        (r \<in> set (matchRules gpc rules cart) \<longleftrightarrow>
           r \<in> set rules \<and> (\<exists>p\<in>set cart. or_else (triggerCollectionId r) [] \<in> set (gpc p))
             \<and> \<not> upsellInCart cart r))
   \<and> (triggerType r = COLLECTION \<longrightarrow> r \<notin> set (matchRulesSkip rules cart))"
  using collectionLoop_fst [of gpc cid cart] collectionLoop_snd [of gpc cid cart]
    matchLoop_snd [of gpc cart rules "[]" "[]"]
    matchRules_collection_mem [of r gpc rules cart] matchRulesSkip_no_collection [of r rules cart]
  by (simp add: matchLookups_def)

theorem collection_rules_witness:
  "fst (collectionLoop exampleCollections ''gid://shopify/Collection/1'' exampleCart)
   \<and> snd (collectionLoop exampleCollections ''gid://shopify/Collection/1'' exampleCart)
       = [''101'', ''103'']
   \<and> snd (collectionLoop exampleCollections ''gid://shopify/Collection/1'' [''103'', ''101''])
       = [''103'']
   \<and> matchLookups exampleCollections [ruleA, ruleB, ruleC] exampleCart
       = [''101'', ''103'', ''101'', ''103'']
   \<and> triggerType ruleC = COLLECTION
   \<and> ruleC \<in> set (matchRules exampleCollections [ruleA, ruleB, ruleC] exampleCart)
   \<and> ruleC \<notin> set (matchRulesSkip [ruleA, ruleB, ruleC] exampleCart)"
  using collection_rules [of exampleCollections "''gid://shopify/Collection/1''" exampleCart
      "[ruleA, ruleB, ruleC]" ruleC]
  by (simp add: example_facts or_else_def) (simp add: exampleCollections_def)

text \<open>
  C2 as stated fails for the loader of \<^verbatim>\<open>api.storefront.upsells.tsx\<close>: rule C is a
  COLLECTION rule, product 103 of the cart belongs to its trigger collection and its upsell
  product is not in the cart, yet that loader's matcher returns nothing, where the loader
  with collection lookup returns rule C.
\<close>

theorem collection_rules_skipped_counterexample:
  "triggerType ruleC = COLLECTION
   \<and> ''103'' \<in> set exampleCart
   \<and> or_else (triggerCollectionId ruleC) [] \<in> set (exampleCollections ''103'')
   \<and> matchRules exampleCollections [ruleC] exampleCart = [ruleC]
   \<and> matchRulesSkip [ruleC] exampleCart = []"
  by (simp add: example_facts matchRules_def matchRulesSkip_def or_else_def exampleCollections_def)
     (simp add: exampleCart_def)

subsection \<open>Offer formatting\<close>

lemma formatOffers_length: "length (formatOffers m) = min maxOffers (length m)"
  by (simp add: formatOffers_def topRules_def)

lemma formatOffers_nth:
  "i < length (formatOffers m) \<Longrightarrow> formatOffers m ! i = toOffer (m ! i)"
  by (simp add: formatOffers_def topRules_def)

lemma formatOffers_drop_rest:
  "maxOffers \<le> length m \<Longrightarrow> formatOffers (m @ later) = formatOffers m"
  by (simp add: formatOffers_def topRules_def)

lemma toOffer_fields:
  "offer_ruleId (toOffer r) = rule_id r"
  "op_id (offer_product (toOffer r)) = upsellProductId r"
  "op_available (offer_product (toOffer r))"
  "op_variantId (offer_product (toOffer r)) =
     (case upsellProductData r of
        None \<Rightarrow> upsellProductId r
      | Some d \<Rightarrow> (case pd_variantId d of None \<Rightarrow> upsellProductId r
                   | Some v \<Rightarrow> if v = [] then upsellProductId r else v))"
  "op_title (offer_product (toOffer r)) =
     (case upsellProductData r of
        None \<Rightarrow> ''Product''
      | Some d \<Rightarrow> (case pd_title d of None \<Rightarrow> ''Product''
                   | Some v \<Rightarrow> if v = [] then ''Product'' else v))"
  "op_price (offer_product (toOffer r)) =
     (case upsellProductData r of
        None \<Rightarrow> ''0.00''
      | Some d \<Rightarrow> (case pd_price d of None \<Rightarrow> ''0.00''
                   | Some v \<Rightarrow> if v = [] then ''0.00'' else v))"
  "op_image (offer_product (toOffer r)) =
     (case upsellProductData r of
        None \<Rightarrow> None
      | Some d \<Rightarrow> (case pd_image d of None \<Rightarrow> None
                   | Some v \<Rightarrow> if v = [] then None else Some v))"
  "op_compareAtPrice (offer_product (toOffer r)) =
     (case upsellProductData r of
        None \<Rightarrow> None
      | Some d \<Rightarrow> (case pd_compareAtPrice d of None \<Rightarrow> None
                   | Some v \<Rightarrow> if v = [] then None else Some v))"
  by (simp_all add: toOffer_def Let_def or_else_def or_null_def snapshot_field_def split: option.splits)

text \<open>
  C5. Offer formatting keeps the first \<open>maxOffers = 3\<close> matched rules in match order and
  drops the rest; each kept rule becomes one offer, built from the rule and its cached
  snapshot: the variant id falls back to the upsell product id, the title to
  \<^verbatim>\<open>Product\<close>, the price to \<^verbatim>\<open>0.00\<close>, image and compare-at price may be null, and
  \<open>available\<close> is always true.
\<close>

theorem offers_truncated_and_formatted:
  "maxOffers = 3
   \<and> formatOffers matchedRules = map toOffer (take 3 matchedRules)
   \<and> length (formatOffers matchedRules) = min 3 (length matchedRules)
   \<and> (\<forall>i < length (formatOffers matchedRules). formatOffers matchedRules ! i = toOffer (matchedRules ! i))
   \<and> (3 \<le> length matchedRules \<longrightarrow> formatOffers (matchedRules @ later) = formatOffers matchedRules)
   \<and> offer_ruleId (toOffer r) = rule_id r
   \<and> op_id (offer_product (toOffer r)) = upsellProductId r
   \<and> op_available (offer_product (toOffer r))
   \<and> op_variantId (offer_product (toOffer r)) =
     (case upsellProductData r of
        None \<Rightarrow> upsellProductId r
      | Some d \<Rightarrow> (case pd_variantId d of None \<Rightarrow> upsellProductId r
                   | Some v \<Rightarrow> if v = [] then upsellProductId r else v))
   \<and> op_title (offer_product (toOffer r)) =
     (case upsellProductData r of
        None \<Rightarrow> ''Product''
      | Some d \<Rightarrow> (case pd_title d of None \<Rightarrow> ''Product''
                   | Some v \<Rightarrow> if v = [] then ''Product'' else v))
   \<and> op_price (offer_product (toOffer r)) =
     (case upsellProductData r of
        None \<Rightarrow> ''0.00''
      | Some d \<Rightarrow> (case pd_price d of None \<Rightarrow> ''0.00''
                   | Some v \<Rightarrow> if v = [] then ''0.00'' else v))
   \<and> op_image (offer_product (toOffer r)) =
     (case upsellProductData r of
        None \<Rightarrow> None
      | Some d \<Rightarrow> (case pd_image d of None \<Rightarrow> None
                   | Some v \<Rightarrow> if v = [] then None else Some v))
   \<and> op_compareAtPrice (offer_product (toOffer r)) =
     (case upsellProductData r of
        None \<Rightarrow> None
      | Some d \<Rightarrow> (case pd_compareAtPrice d of None \<Rightarrow> None
                   | Some v \<Rightarrow> if v = [] then None else Some v))"
  using formatOffers_length [of matchedRules] formatOffers_nth [of _ matchedRules]
    formatOffers_drop_rest [of matchedRules later]
  by (simp add: maxOffers_def toOffer_fields) (simp add: formatOffers_def topRules_def maxOffers_def)

theorem offers_truncated_and_formatted_witness:
  "map offer_ruleId (formatOffers [ruleA, ruleC, ruleB, ruleA, ruleC]) = [''rA'', ''rC'', ''rB'']
   \<and> formatOffers ([ruleA, ruleC, ruleB] @ [ruleA, ruleC]) = formatOffers [ruleA, ruleC, ruleB]
   \<and> formatOffers [ruleA, ruleC, ruleB, ruleA, ruleC] ! 1 =
       \<lparr> offer_ruleId = ''rC'',
         offer_product = \<lparr> op_id = ''gid://shopify/Product/104'',
           op_variantId = ''gid://shopify/Product/104'', op_title = ''Product'', op_image = None,
           op_price = ''0.00'', op_compareAtPrice = None, op_available = True \<rparr> \<rparr>
   \<and> offer_product (toOffer ruleA) =
       \<lparr> op_id = ''gid://shopify/Product/102'',
         op_variantId = ''gid://shopify/Product/102'', op_title = ''Mug'', op_image = None,
         op_price = ''1500'', op_compareAtPrice = None, op_available = True \<rparr>"
  using offers_truncated_and_formatted [of "[ruleA, ruleC, ruleB, ruleA, ruleC]" "[]" ruleA]
    offers_truncated_and_formatted [of "[ruleA, ruleC, ruleB]" "[ruleA, ruleC]" ruleC]
  by (simp add: toOffer_def ruleA_def ruleB_def ruleC_def or_else_def or_null_def snapshot_field_def)

subsection \<open>The plan gate\<close>

lemma show_1: "show_nat 1 = ''1''" "show_nat (Suc 0) = ''1''" by code_simp+
lemma show_999: "show_nat 999 = ''999''" by code_simp

lemma limitReason_names:
  "sublist (plan_name cfg) (limitReason cfg)" "sublist (show_nat (plan_maxRules cfg)) (limitReason cfg)"
  unfolding limitReason_def sublist_def by (metis append.assoc)+

lemma canPerformAction_count:
  "BILLING_PLANS plan = Some cfg \<Longrightarrow>
     canPerformAction plan CreateRule (Some n) =
       (if n \<ge> plan_maxRules cfg then Inr \<lparr> allowed = False, reason = Some (limitReason cfg) \<rparr>
        else Inr \<lparr> allowed = True, reason = None \<rparr>)"
  by (simp add: canPerformAction_def)

lemma BILLING_PLANS_cases:
  "BILLING_PLANS plan = Some cfg \<longleftrightarrow>
     (plan = FREE \<and> cfg = \<lparr> plan_name = ''Free'', plan_price = 0, plan_maxRules = 1,
                      plan_features = [''1 active upsell rule'', ''Basic analytics'',
                                       ''Cart page upsells'', ''Email support''] \<rparr>)
   \<or> (plan = PRO \<and> cfg = \<lparr> plan_name = ''Pro'', plan_price = 999 / 100, plan_maxRules = 999,
                     plan_features = [''Unlimited upsell rules'', ''Advanced analytics'',
                                      ''Cart page upsells'', ''Discount badges'',
                                      ''Priority support''] \<rparr>)"
  by (cases plan) (auto simp: BILLING_PLANS_def)

text \<open>
  C6 (as amended). For the plans that \<open>BILLING_PLANS\<close> defines (FREE with
  \<open>maxRules = 1\<close>, PRO with \<open>maxRules = 999\<close>), \<open>canPerformAction\<close> with a count answers
  \<open>allowed = False\<close> exactly when the count has reached \<open>maxRules\<close>, and the reason then
  contains the plan's name and its limit; FREE with count 1 is refused with a reason
  naming \<^verbatim>\<open>Free\<close> and \<^verbatim>\<open>1\<close>, PRO with count 1 is allowed, and a call without a count is
  allowed.
\<close>

theorem plan_gate:
  "(BILLING_PLANS plan = Some cfg \<longrightarrow>
      ((\<exists>why. canPerformAction plan CreateRule (Some n) = Inr \<lparr> allowed = False, reason = why \<rparr>)
          \<longleftrightarrow> n \<ge> plan_maxRules cfg)
      \<and> (canPerformAction plan CreateRule (Some n) = Inr \<lparr> allowed = True, reason = None \<rparr>
          \<longleftrightarrow> n < plan_maxRules cfg)
      \<and> (n \<ge> plan_maxRules cfg \<longrightarrow>
          canPerformAction plan CreateRule (Some n)
            = Inr \<lparr> allowed = False, reason = Some (limitReason cfg) \<rparr>)
      \<and> sublist (plan_name cfg) (limitReason cfg)
      \<and> sublist (show_nat (plan_maxRules cfg)) (limitReason cfg))
   \<and> (BILLING_PLANS plan \<noteq> None \<longleftrightarrow> plan = FREE \<or> plan = PRO)
   \<and> map_option plan_maxRules (BILLING_PLANS FREE) = Some 1
   \<and> map_option plan_maxRules (BILLING_PLANS PRO) = Some 999
   \<and> map_option plan_name (BILLING_PLANS FREE) = Some ''Free''
   \<and> canPerformAction FREE CreateRule (Some 1) = Inr \<lparr> allowed = False, reason = Some
        ''You've reached the maximum of 1 rule(s) on the Free plan. Upgrade to Pro for unlimited rules.'' \<rparr>
   \<and> canPerformAction PRO CreateRule (Some 1) = Inr \<lparr> allowed = True, reason = None \<rparr>
   \<and> canPerformAction plan CreateRule None = Inr \<lparr> allowed = True, reason = None \<rparr>"
proof -
  have a: "BILLING_PLANS plan = Some cfg \<longrightarrow>
      ((\<exists>why. canPerformAction plan CreateRule (Some n) = Inr \<lparr> allowed = False, reason = why \<rparr>)
          \<longleftrightarrow> n \<ge> plan_maxRules cfg)
      \<and> (canPerformAction plan CreateRule (Some n) = Inr \<lparr> allowed = True, reason = None \<rparr>
          \<longleftrightarrow> n < plan_maxRules cfg)
      \<and> (n \<ge> plan_maxRules cfg \<longrightarrow>
          canPerformAction plan CreateRule (Some n)
            = Inr \<lparr> allowed = False, reason = Some (limitReason cfg) \<rparr>)
      \<and> sublist (plan_name cfg) (limitReason cfg)
      \<and> sublist (show_nat (plan_maxRules cfg)) (limitReason cfg)"
    by (auto simp: canPerformAction_count limitReason_names)
  have b: "BILLING_PLANS plan \<noteq> None \<longleftrightarrow> plan = FREE \<or> plan = PRO"
    by (cases plan) (simp_all add: BILLING_PLANS_def)
  have c: "map_option plan_maxRules (BILLING_PLANS FREE) = Some 1"
    "map_option plan_maxRules (BILLING_PLANS PRO) = Some 999"
    "map_option plan_name (BILLING_PLANS FREE) = Some ''Free''"
    by (simp_all add: BILLING_PLANS_def)
  have d: "canPerformAction FREE CreateRule (Some 1) = Inr \<lparr> allowed = False, reason = Some
        ''You've reached the maximum of 1 rule(s) on the Free plan. Upgrade to Pro for unlimited rules.'' \<rparr>"
    by (simp add: canPerformAction_def BILLING_PLANS_def limitReason_def show_1)
  have e: "canPerformAction PRO CreateRule (Some 1) = Inr \<lparr> allowed = True, reason = None \<rparr>"
    by (simp add: canPerformAction_def BILLING_PLANS_def)
  have f: "canPerformAction plan CreateRule None = Inr \<lparr> allowed = True, reason = None \<rparr>"
    by (simp add: canPerformAction_def)
  from a b c d e f show ?thesis by blast
qed

theorem plan_gate_witness:
  "BILLING_PLANS PRO = Some \<lparr> plan_name = ''Pro'', plan_price = 999 / 100, plan_maxRules = 999,
                     plan_features = [''Unlimited upsell rules'', ''Advanced analytics'',
                                      ''Cart page upsells'', ''Discount badges'',
                                      ''Priority support''] \<rparr>
   \<and> canPerformAction PRO CreateRule (Some 999) = Inr \<lparr> allowed = False, reason = Some
        ''You've reached the maximum of 999 rule(s) on the Pro plan. Upgrade to Pro for unlimited rules.'' \<rparr>
   \<and> canPerformAction PRO CreateRule (Some 998) = Inr \<lparr> allowed = True, reason = None \<rparr>
   \<and> sublist ''Pro'' (limitReason (the (BILLING_PLANS PRO)))
   \<and> sublist ''999'' (limitReason (the (BILLING_PLANS PRO)))"
proof -
  have p: "BILLING_PLANS PRO = Some \<lparr> plan_name = ''Pro'', plan_price = 999 / 100, plan_maxRules = 999,
                     plan_features = [''Unlimited upsell rules'', ''Advanced analytics'',
                                      ''Cart page upsells'', ''Discount badges'',
                                      ''Priority support''] \<rparr>"
    by (simp add: BILLING_PLANS_def)
  show ?thesis
    using plan_gate [of PRO "the (BILLING_PLANS PRO)" 999] plan_gate [of PRO "the (BILLING_PLANS PRO)" 998]
    by (simp add: p limitReason_def show_999)
qed

text \<open>
  C6 as stated fails for STARTER: \<open>BILLING_PLANS\<close> has no such key, and the call with a
  count does not return \<open>allowed = True\<close>.
\<close>

theorem plan_gate_starter_counterexample:
  "canPerformAction STARTER CreateRule (Some 1) = Inl TypeError
   \<and> canPerformAction STARTER CreateRule (Some 1) \<noteq> Inr \<lparr> allowed = True, reason = None \<rparr>"
  by (simp add: canPerformAction_def BILLING_PLANS_def)

subsection \<open>Recording events\<close>

lemma find_append_Some: "find P xs = Some x \<Longrightarrow> find P (xs @ ys) = Some x"
  by (induction xs) (auto split: if_splits)

lemma find_append_None: "find P xs = None \<Longrightarrow> find P (xs @ ys) = find P ys"
  by (induction xs) (auto split: if_splits)

lemma eventType_of_nonempty: "eventType_of s = Some et \<Longrightarrow> s \<noteq> []"
  by (auto simp: eventType_of_def)

lemma action_track_valid:
  assumes "shop_findUnique st shopDomain = Inr (Some shopRecord)"
    and "rule_findUnique st ruleId (shop_id shopRecord) = Inr (Some rule)"
    and "shopDomain \<noteq> []" and "ruleId \<noteq> []" and "eventType_of ets = Some et"
  shows "action_track pf st (trackRequest ets ruleId shopDomain ct sid pp) =
     dedupAndCreate pf st shopRecord ruleId et
       \<lparr> t_eventType = Some ets, t_ruleId = Some ruleId, t_shopDomain = Some shopDomain,
         t_cartToken = ct, t_sessionId = sid, t_productPrice = pp \<rparr>"
  using assms eventType_of_nonempty [OF assms(5)]
  by (simp add: action_track_def trackRequest_def or_null_def)

text \<open>What a request leaves untouched, and that the event table only grows.\<close>

lemma createEvent_frame:
  "createEvent pf st sh rid et b = (resp, st') \<Longrightarrow>
     shopTable st' = shopTable st \<and> ruleTable st' = ruleTable st \<and> throws st' = throws st
     \<and> (\<exists>extra. eventTable st' = eventTable st @ extra)"
  by (auto simp: createEvent_def event_create_def split: if_splits)

lemma dedupAndCreate_frame:
  "dedupAndCreate pf st sh rid et b = (resp, st') \<Longrightarrow>
     shopTable st' = shopTable st \<and> ruleTable st' = ruleTable st \<and> throws st' = throws st
     \<and> (\<exists>extra. eventTable st' = eventTable st @ extra)"
  by (auto simp: dedupAndCreate_def split: EventType.splits option.splits sum.splits
        dest!: createEvent_frame)

lemma action_track_frame:
  "action_track pf st req = (resp, st') \<Longrightarrow>
     shopTable st' = shopTable st \<and> ruleTable st' = ruleTable st \<and> throws st' = throws st
     \<and> (\<exists>extra. eventTable st' = eventTable st @ extra)"
  unfolding action_track_def
  by (auto split: if_splits option.splits sum.splits prod.splits dest!: dedupAndCreate_frame)

lemma track_all_frame:
  "shopTable (track_all pf st rs) = shopTable st \<and> ruleTable (track_all pf st rs) = ruleTable st
   \<and> throws (track_all pf st rs) = throws st
   \<and> (\<exists>extra. eventTable (track_all pf st rs) = eventTable st @ extra)"
proof (induction rs arbitrary: st)
  case Nil
  show ?case by simp
next
  case (Cons r rs)
  obtain resp st' where step: "action_track pf st r = (resp, st')" by (cases "action_track pf st r")
  from action_track_frame [OF step] Cons.IH [of st'] step show ?case by auto
qed

lemma lookups_frame:
  assumes "shopTable st' = shopTable st" "ruleTable st' = ruleTable st" "throws st' = throws st"
  shows "shop_findUnique st' d = shop_findUnique st d"
    and "rule_findUnique st' r s = rule_findUnique st r s"
  using assms by (simp_all add: shop_findUnique_def rule_findUnique_def)


lemma storedPrice_impression: "storedPrice pf IMPRESSION pp = None"
  by (simp add: storedPrice_def split: option.splits)

lemma first_impression:
  assumes "event_findFirst_impression st ruleId s = Inr None" and "\<not> throws st EventCreate"
    and "s \<noteq> []"
  shows "dedupAndCreate pf st shopRecord ruleId IMPRESSION
           \<lparr> t_eventType = Some ets, t_ruleId = Some ruleId, t_shopDomain = Some shopDomain,
             t_cartToken = ct, t_sessionId = Some s, t_productPrice = pp \<rparr>
         = (json 200 cors (TrackedBody True True None),
            st\<lparr>eventTable := eventTable st
                 @ [newEvent shopRecord ruleId IMPRESSION (or_null ct) (Some s) None]\<rparr>)"
  using assms
  by (simp add: dedupAndCreate_def createEvent_def event_create_def or_null_def newEvent_def
        storedPrice_impression)

lemma repeated_impression:
  assumes "event_findFirst_impression st ruleId s = Inr (Some e)" and "s \<noteq> []"
  shows "dedupAndCreate pf st shopRecord ruleId IMPRESSION
           \<lparr> t_eventType = Some ets, t_ruleId = Some ruleId, t_shopDomain = Some shopDomain,
             t_cartToken = ct, t_sessionId = Some s, t_productPrice = pp \<rparr>
         = (json 200 cors (TrackedBody True False (Some ''duplicate'')), st)"
  using assms by (simp add: dedupAndCreate_def or_null_def)

lemma findFirst_after_append:
  "event_findFirst_impression st ruleId s = Inr (Some e) \<Longrightarrow>
     throws st' = throws st \<Longrightarrow> eventTable st' = eventTable st @ extra \<Longrightarrow>
     event_findFirst_impression st' ruleId s = Inr (Some e)"
  by (auto simp: event_findFirst_impression_def split: if_splits dest: find_append_Some)

lemma findFirst_after_own:
  "event_findFirst_impression st ruleId s = Inr None \<Longrightarrow>
     event_findFirst_impression
       (st\<lparr>eventTable := eventTable st @ [newEvent sh ruleId IMPRESSION ct (Some s) pr]\<rparr>) ruleId s
     = Inr (Some (newEvent sh ruleId IMPRESSION ct (Some s) pr))"
  by (auto simp: event_findFirst_impression_def newEvent_def find_append_None split: if_splits)

lemma findFirst_after_other:
  "event_findFirst_impression st ruleId s2 = Inr None \<Longrightarrow> s1 \<noteq> s2 \<Longrightarrow>
     event_findFirst_impression
       (st\<lparr>eventTable := eventTable st @ [newEvent sh ruleId IMPRESSION ct (Some s1) pr]\<rparr>) ruleId s2
     = Inr None"
  by (auto simp: event_findFirst_impression_def newEvent_def find_append_None split: if_splits)

text \<open>
  C3. For a known shop and a rule of that shop, with a session id that is present: the
  first IMPRESSION for \<open>(ruleId, s1)\<close> is tracked and appends one row; the same request
  again answers \<open>{success: true, tracked: false, reason: "duplicate"}\<close> and leaves the
  store as it is; an IMPRESSION for another session \<open>s2\<close> of the same rule is tracked and
  appends a row. The duplicate answer does not expire: it is given after any sequence of
  later tracking requests.
\<close>

theorem impression_dedup:
  assumes shop: "shop_findUnique st shopDomain = Inr (Some shopRecord)"
    and rule: "rule_findUnique st ruleId (shop_id shopRecord) = Inr (Some rule)"
    and present: "shopDomain \<noteq> []" "ruleId \<noteq> []" "s1 \<noteq> []" "s2 \<noteq> []"
    and differ: "s1 \<noteq> s2"
    and fresh: "event_findFirst_impression st ruleId s1 = Inr None"
               "event_findFirst_impression st ruleId s2 = Inr None"
    and up: "\<not> throws st EventCreate"
    and st1: "st1 = st\<lparr>eventTable := eventTable st
                 @ [newEvent shopRecord ruleId IMPRESSION (or_null ct) (Some s1) None]\<rparr>"
  shows "action_track pf st (trackRequest ''IMPRESSION'' ruleId shopDomain ct (Some s1) pp)
           = (json 200 cors (TrackedBody True True None), st1)
       \<and> action_track pf st1 (trackRequest ''IMPRESSION'' ruleId shopDomain ct (Some s1) pp)
           = (json 200 cors (TrackedBody True False (Some ''duplicate'')), st1)
       \<and> action_track pf st1 (trackRequest ''IMPRESSION'' ruleId shopDomain ct (Some s2) pp)
           = (json 200 cors (TrackedBody True True None),
              st1\<lparr>eventTable := eventTable st1
                 @ [newEvent shopRecord ruleId IMPRESSION (or_null ct) (Some s2) None]\<rparr>)
       \<and> (\<forall>later. action_track pf (track_all pf st1 later)
                     (trackRequest ''IMPRESSION'' ruleId shopDomain ct (Some s1) pp)
           = (json 200 cors (TrackedBody True False (Some ''duplicate'')), track_all pf st1 later))"
proof -
  have et: "eventType_of ''IMPRESSION'' = Some IMPRESSION"
    by (simp add: eventType_of_def)
  have same: "shopTable st1 = shopTable st" "ruleTable st1 = ruleTable st" "throws st1 = throws st"
    by (simp_all add: st1)
  have shop1: "shop_findUnique st1 shopDomain = Inr (Some shopRecord)"
    and rule1: "rule_findUnique st1 ruleId (shop_id shopRecord) = Inr (Some rule)"
    using lookups_frame [OF same] shop rule by simp_all
  have found: "event_findFirst_impression st1 ruleId s1
      = Inr (Some (newEvent shopRecord ruleId IMPRESSION (or_null ct) (Some s1) None))"
    unfolding st1 by (rule findFirst_after_own [OF fresh(1)])
  have other: "event_findFirst_impression st1 ruleId s2 = Inr None"
    unfolding st1 by (rule findFirst_after_other [OF fresh(2) differ])
  have first: "action_track pf st (trackRequest ''IMPRESSION'' ruleId shopDomain ct (Some s1) pp)
           = (json 200 cors (TrackedBody True True None), st1)"
    unfolding action_track_valid [OF shop rule present(1,2) et] st1
    by (rule first_impression [OF fresh(1) up present(3)])
  have second: "action_track pf st1 (trackRequest ''IMPRESSION'' ruleId shopDomain ct (Some s1) pp)
           = (json 200 cors (TrackedBody True False (Some ''duplicate'')), st1)"
    unfolding action_track_valid [OF shop1 rule1 present(1,2) et]
    by (rule repeated_impression [OF found present(3)])
  have third: "action_track pf st1 (trackRequest ''IMPRESSION'' ruleId shopDomain ct (Some s2) pp)
           = (json 200 cors (TrackedBody True True None),
              st1\<lparr>eventTable := eventTable st1
                 @ [newEvent shopRecord ruleId IMPRESSION (or_null ct) (Some s2) None]\<rparr>)"
    unfolding action_track_valid [OF shop1 rule1 present(1,2) et]
    using up same(3) by (intro first_impression [OF other _ present(4)]) simp
  have forever: "action_track pf (track_all pf st1 later)
                     (trackRequest ''IMPRESSION'' ruleId shopDomain ct (Some s1) pp)
           = (json 200 cors (TrackedBody True False (Some ''duplicate'')), track_all pf st1 later)"
    for later
  proof -
    let ?st = "track_all pf st1 later"
    from track_all_frame [of pf st1 later] obtain extra where
      fr: "shopTable ?st = shopTable st1" "ruleTable ?st = ruleTable st1"
          "throws ?st = throws st1" "eventTable ?st = eventTable st1 @ extra"
      by blast
    have shop': "shop_findUnique ?st shopDomain = Inr (Some shopRecord)"
      and rule': "rule_findUnique ?st ruleId (shop_id shopRecord) = Inr (Some rule)"
      using lookups_frame [OF fr(1,2,3)] shop1 rule1 by simp_all
    have found': "event_findFirst_impression ?st ruleId s1
      = Inr (Some (newEvent shopRecord ruleId IMPRESSION (or_null ct) (Some s1) None))"
      by (rule findFirst_after_append [OF found fr(3,4)])
    show ?thesis
      unfolding action_track_valid [OF shop' rule' present(1,2) et]
      by (rule repeated_impression [OF found' present(3)])
  qed
  from first second third forever show ?thesis by blast
qed


lemma example_store_facts:
  "shop_findUnique exampleStore ''demo.myshopify.com'' = Inr (Some exampleShop)"
  "rule_findUnique exampleStore ''rA'' (shop_id exampleShop) = Inr (Some ruleA)"
  "event_findFirst_impression exampleStore ''rA'' s = Inr None"
  "\<not> throws exampleStore op"
  by (simp_all add: shop_findUnique_def rule_findUnique_def event_findFirst_impression_def
        exampleStore_def exampleShop_def ruleA_def)

theorem impression_dedup_witness:
  "action_track exampleParseFloat exampleStore
       (trackRequest ''IMPRESSION'' ''rA'' ''demo.myshopify.com'' None (Some ''sess1'') None)
     = (json 200 cors (TrackedBody True True None),
        exampleStore\<lparr>eventTable := [newEvent exampleShop ''rA'' IMPRESSION None (Some ''sess1'') None]\<rparr>)
   \<and> action_track exampleParseFloat
       (exampleStore\<lparr>eventTable := [newEvent exampleShop ''rA'' IMPRESSION None (Some ''sess1'') None]\<rparr>)
       (trackRequest ''IMPRESSION'' ''rA'' ''demo.myshopify.com'' None (Some ''sess1'') None)
     = (json 200 cors (TrackedBody True False (Some ''duplicate'')),
        exampleStore\<lparr>eventTable := [newEvent exampleShop ''rA'' IMPRESSION None (Some ''sess1'') None]\<rparr>)
   \<and> action_track exampleParseFloat
       (exampleStore\<lparr>eventTable := [newEvent exampleShop ''rA'' IMPRESSION None (Some ''sess1'') None]\<rparr>)
       (trackRequest ''IMPRESSION'' ''rA'' ''demo.myshopify.com'' None (Some ''sess2'') None)
     = (json 200 cors (TrackedBody True True None),
        exampleStore\<lparr>eventTable := [newEvent exampleShop ''rA'' IMPRESSION None (Some ''sess1'') None,
                                     newEvent exampleShop ''rA'' IMPRESSION None (Some ''sess2'') None]\<rparr>)"
proof -
  have e: "eventTable exampleStore = []" by (simp add: exampleStore_def)
  have n: "''demo.myshopify.com'' \<noteq> []" "''rA'' \<noteq> []" "''sess1'' \<noteq> []" "''sess2'' \<noteq> []"
    "''sess1'' \<noteq> ''sess2''" by simp_all
  show ?thesis
    using impression_dedup [where ct = None and pf = exampleParseFloat and pp = None,
        OF example_store_facts(1,2) n example_store_facts(3,3,4) refl]
    by (simp add: e or_null_def)
qed






subsection \<open>Analytics roll-up\<close>

lemma pow2_pos: "0 < pow2 e" by (simp add: pow2_def)

lemma pow2_neg_mult: "e \<le> 0 \<Longrightarrow> x / pow2 e = x * 2 ^ nat (- e)"
  by (cases "e = 0") (simp_all add: pow2_def)

lemma round_half_even_int: "round_half_even (of_int m) = m"
  by (simp add: round_half_even_def)

lemma ilog2_nat_le: "0 < n \<Longrightarrow> n < 2 ^ 53 \<Longrightarrow> ilog2 (of_int n) \<le> 52"
proof -
  assume n: "0 < n" "n < (2::int) ^ 53"
  have "bitlen n \<le> 53" using n by (simp add: bitlen_le_iff_power)
  moreover have "bitlen 1 = 1" by code_simp
  ultimately show ?thesis
    by (auto simp: ilog2_def Let_def)
qed

lemma fl_int_exact:
  assumes "0 \<le> n" "n < 2 ^ 53"
  shows "fl (of_int n) = of_int n"
proof (cases "n = 0")
  case True then show ?thesis by (simp add: fl_def)
next
  case False
  with assms have pos: "0 < n" by simp
  define e where "e = max (ilog2 \<bar>of_int n\<bar>) (- 1022)"
  have "e \<le> 52" using ilog2_nat_le [OF pos assms(2)] pos by (simp add: e_def)
  then have le: "e - 52 \<le> 0" by simp
  have d: "of_int n / pow2 (e - 52) = (of_int (n * 2 ^ nat (52 - e)) :: rat)"
    using pow2_neg_mult [OF le, of "of_int n"] by simp
  have "fl (of_int n) = of_int (round_half_even (of_int n / pow2 (e - 52))) * pow2 (e - 52)"
    using False by (simp add: fl_def Let_def e_def)
  also have "\<dots> = of_int (n * 2 ^ nat (52 - e)) * pow2 (e - 52)"
    unfolding d round_half_even_int ..
  also have "\<dots> = of_int n"
    using le pow2_neg_mult [OF le, of "of_int n"] pow2_pos [of "e - 52"]
    by (simp add: field_simps)
  finally show ?thesis .
qed


lemma fadd_int_exact:
  assumes "0 \<le> a" "0 \<le> b" "a + b < 2 ^ 53"
  shows "fadd (of_int a) (fl (of_int b)) = of_int (a + b)"
proof -
  have "fl (of_int b) = of_int b" using assms by (intro fl_int_exact) auto
  moreover have "fl (of_int (a + b)) = of_int (a + b)" using assms by (intro fl_int_exact) auto
  ultimately show ?thesis by (simp add: fadd_def)
qed

lemma foldl_fadd_exact:
  assumes "\<forall>x\<in>set xs. 0 \<le> x" "0 \<le> a" "a + sum_list xs < 2 ^ 53"
  shows "foldl (\<lambda>sum x. fadd sum (fl (of_int x))) (of_int a) xs = of_int (a + sum_list xs)"
  using assms
proof (induction xs arbitrary: a)
  case Nil
  then show ?case by simp
next
  case (Cons x xs)
  have nn: "0 \<le> sum_list xs" using Cons.prems(1) by (simp add: sum_list_nonneg)
  have x: "0 \<le> x" using Cons.prems(1) by simp
  have step: "fadd (of_int a) (fl (of_int x)) = of_int (a + x)"
    using Cons.prems nn x by (intro fadd_int_exact) auto
  have "foldl (\<lambda>sum x. fadd sum (fl (of_int x))) (of_int (a + x)) xs = of_int ((a + x) + sum_list xs)"
    using Cons.prems x by (intro Cons.IH) (auto simp: add.assoc)
  then show ?case by (simp add: step add.assoc)
qed


lemma rate_example: "fmul (fdiv 2 10) 100 = 20" by code_simp

lemma revenue_exact:
  assumes ints: "\<forall>e\<in>set cs. case ev_productPrice e of None \<Rightarrow> True | Some d \<Rightarrow> d \<in> \<int> \<and> 0 \<le> d"
    and bound: "sum_list (map (\<lambda>e. case ev_productPrice e of None \<Rightarrow> 0 | Some d \<Rightarrow> d) cs) < 2 ^ 53"
  shows "foldl (\<lambda>sum event. fadd sum (priceNumber event)) 0 cs
       = sum_list (map (\<lambda>e. case ev_productPrice e of None \<Rightarrow> 0 | Some d \<Rightarrow> d) cs)"
proof -
  let ?k = "\<lambda>e. case ev_productPrice e of None \<Rightarrow> 0 | Some d \<Rightarrow> \<lfloor>d\<rfloor>"
  let ?p = "\<lambda>e. case ev_productPrice e of None \<Rightarrow> 0 | Some d \<Rightarrow> d"
  have k: "of_int (?k e) = ?p e" "0 \<le> ?k e" if "e \<in> set cs" for e
    using ints that by (auto split: option.splits elim!: Ints_cases)
  have pn: "priceNumber e = fl (of_int (?k e))" if "e \<in> set cs" for e
  proof (cases "ev_productPrice e")
    case None
    then show ?thesis by (simp add: priceNumber_def fl_def)
  next
    case (Some d)
    with ints that have "d \<in> \<int>" by auto
    then obtain n where "d = of_int n" by (auto elim: Ints_cases)
    with Some show ?thesis by (simp add: priceNumber_def)
  qed
  have sum: "of_int (sum_list (map ?k cs)) = sum_list (map ?p cs)"
    using k(1) by (induction cs) auto
  have "foldl (\<lambda>sum event. fadd sum (priceNumber event)) 0 cs
      = foldl (\<lambda>sum event. fadd sum (fl (of_int (?k event)))) (of_int 0) cs"
    using pn by (intro foldl_cong) auto
  also have "\<dots> = foldl (\<lambda>sum x. fadd sum (fl (of_int x))) (of_int 0) (map ?k cs)"
    by (simp add: foldl_map)
  also have "\<dots> = of_int (0 + sum_list (map ?k cs))"
  proof (rule foldl_fadd_exact)
    show "\<forall>x\<in>set (map ?k cs). 0 \<le> x" using k(2) by auto
    show "(0::int) \<le> 0" by simp
    have "(of_int (sum_list (map ?k cs)) :: rat) < of_int (2 ^ 53)"
      using bound sum by simp
    then show "0 + sum_list (map ?k cs) < 2 ^ 53" by (simp only: of_int_less_iff add_0)
  qed
  finally show ?thesis using sum by simp
qed

text \<open>
  C4. The summary counts the IMPRESSION and the CONVERSION events; the conversion rate is
  \<open>totalConversions / totalImpressions * 100\<close> in binary64 arithmetic when there is an
  impression and \<open>0\<close> when there is none, so no division by zero occurs; ten impressions
  and two conversions give exactly \<open>20\<close>. The revenue is the left-to-right binary64 sum of
  the prices of the CONVERSION events, a null price counting \<open>0\<close>; for non-negative
  integer prices (minor units) whose sum is below \<open>2^53\<close> it is the exact sum.
\<close>

theorem summary_metrics:
  "totalImpressions (computeSummary events) = length (filter (\<lambda>e. ev_eventType e = IMPRESSION) events)
   \<and> totalConversions (computeSummary events) = length (filter (\<lambda>e. ev_eventType e = CONVERSION) events)
   \<and> conversionRate (computeSummary events) =
       (if totalImpressions (computeSummary events) > 0
        then fmul (fdiv (of_nat (totalConversions (computeSummary events)))
                        (of_nat (totalImpressions (computeSummary events)))) 100
        else 0)
   \<and> (totalImpressions (computeSummary events) = 0 \<longrightarrow> conversionRate (computeSummary events) = 0)
   \<and> (totalImpressions (computeSummary events) = 10 \<and> totalConversions (computeSummary events) = 2
        \<longrightarrow> conversionRate (computeSummary events) = 20)
   \<and> totalRevenue (computeSummary events) =
       foldl (\<lambda>sum p. fadd sum (case p of None \<Rightarrow> 0 | Some d \<Rightarrow> fl d)) 0
         (map ev_productPrice (filter (\<lambda>e. ev_eventType e = CONVERSION) events))
   \<and> ((\<forall>e\<in>set events. ev_eventType e = CONVERSION \<longrightarrow>
          (case ev_productPrice e of None \<Rightarrow> True | Some d \<Rightarrow> d \<in> \<int> \<and> 0 \<le> d))
       \<and> sum_list (map (\<lambda>e. case ev_productPrice e of None \<Rightarrow> 0 | Some d \<Rightarrow> d)
             (filter (\<lambda>e. ev_eventType e = CONVERSION) events)) < 2 ^ 53
       \<longrightarrow> totalRevenue (computeSummary events) =
             sum_list (map (\<lambda>e. case ev_productPrice e of None \<Rightarrow> 0 | Some d \<Rightarrow> d)
               (filter (\<lambda>e. ev_eventType e = CONVERSION) events)))"
proof -
  let ?cs = "filter (\<lambda>e. ev_eventType e = CONVERSION) events"
  have counts: "totalImpressions (computeSummary events) = length (filter (\<lambda>e. ev_eventType e = IMPRESSION) events)"
    "totalConversions (computeSummary events) = length ?cs"
    by (simp_all add: computeSummary_def Let_def)
  have rate: "conversionRate (computeSummary events) =
       (if totalImpressions (computeSummary events) > 0
        then fmul (fdiv (of_nat (totalConversions (computeSummary events)))
                        (of_nat (totalImpressions (computeSummary events)))) 100
        else 0)"
    by (simp add: computeSummary_def Let_def)
  have zero: "totalImpressions (computeSummary events) = 0 \<longrightarrow> conversionRate (computeSummary events) = 0"
    using rate by simp
  have twenty: "totalImpressions (computeSummary events) = 10 \<and> totalConversions (computeSummary events) = 2
        \<longrightarrow> conversionRate (computeSummary events) = 20"
    using rate rate_example by simp
  have rev: "totalRevenue (computeSummary events) = foldl (\<lambda>sum event. fadd sum (priceNumber event)) 0 ?cs"
    by (simp add: computeSummary_def Let_def)
  have rev': "totalRevenue (computeSummary events) =
       foldl (\<lambda>sum p. fadd sum (case p of None \<Rightarrow> 0 | Some d \<Rightarrow> fl d)) 0 (map ev_productPrice ?cs)"
    unfolding rev by (simp add: foldl_map priceNumber_def)
  have exact: "(\<forall>e\<in>set events. ev_eventType e = CONVERSION \<longrightarrow>
          (case ev_productPrice e of None \<Rightarrow> True | Some d \<Rightarrow> d \<in> \<int> \<and> 0 \<le> d))
       \<and> sum_list (map (\<lambda>e. case ev_productPrice e of None \<Rightarrow> 0 | Some d \<Rightarrow> d) ?cs) < 2 ^ 53
       \<longrightarrow> totalRevenue (computeSummary events) =
             sum_list (map (\<lambda>e. case ev_productPrice e of None \<Rightarrow> 0 | Some d \<Rightarrow> d) ?cs)"
    unfolding rev by (intro impI revenue_exact) auto
  from counts rate zero twenty rev' exact show ?thesis by blast
qed


lemma example_summaries:
  "computeSummary exampleEvents
     = \<lparr> totalImpressions = 10, totalConversions = 2, conversionRate = 20, totalRevenue = 2000 \<rparr>"
  "computeSummary exampleConversions
     = \<lparr> totalImpressions = 0, totalConversions = 3, conversionRate = 0, totalRevenue = 2000 \<rparr>"
  by code_simp+

theorem summary_metrics_witness:
  "totalImpressions (computeSummary exampleEvents) = 10
   \<and> totalConversions (computeSummary exampleEvents) = 2
   \<and> conversionRate (computeSummary exampleEvents) = 20
   \<and> totalImpressions (computeSummary exampleConversions) = 0
   \<and> conversionRate (computeSummary exampleConversions) = 0
   \<and> totalRevenue (computeSummary exampleConversions) = 500 + 1500 + 0"
proof -
  have ints: "\<forall>e\<in>set exampleConversions. ev_eventType e = CONVERSION \<longrightarrow>
      (case ev_productPrice e of None \<Rightarrow> True | Some d \<Rightarrow> d \<in> \<int> \<and> 0 \<le> d)"
    by (simp add: exampleConversions_def newEvent_def)
  have sum: "sum_list (map (\<lambda>e. case ev_productPrice e of None \<Rightarrow> 0 | Some d \<Rightarrow> d)
             (filter (\<lambda>e. ev_eventType e = CONVERSION) exampleConversions)) = 500 + 1500 + 0"
    by (simp add: exampleConversions_def newEvent_def)
  have counts: "totalImpressions (computeSummary exampleEvents) = 10"
    "totalConversions (computeSummary exampleEvents) = 2"
    "totalImpressions (computeSummary exampleConversions) = 0"
    by (simp_all add: example_summaries)
  from summary_metrics [of exampleEvents] counts(1,2)
  have a: "conversionRate (computeSummary exampleEvents) = 20" by blast
  from summary_metrics [of exampleConversions] counts(3)
  have b: "conversionRate (computeSummary exampleConversions) = 0" by blast
  from summary_metrics [of exampleConversions] ints sum
  have c: "totalRevenue (computeSummary exampleConversions) = 500 + 1500 + 0" by simp
  from counts a b c show ?thesis by simp
qed

subsection \<open>The storefront loaders\<close>

lemma or_null_None_iff: "or_null s = None \<longleftrightarrow> \<not> truthy s"
  by (simp add: or_null_def truthy_def split: option.splits)

lemma or_null_Some_iff: "or_null s = Some v \<longleftrightarrow> s = Some v \<and> v \<noteq> []"
  by (auto simp: or_null_def split: option.splits if_splits)

lemma split_comma_nonempty: "split_comma p \<noteq> []"
  by (induction p) (auto split: list.splits)

lemma split_comma_chars:
  "x \<in> set (split_comma p) \<Longrightarrow> set x \<subseteq> set p - {CHR '',''}"
proof (induction p arbitrary: x)
  case Nil
  then show ?case by simp
next
  case (Cons c cs)
  show ?case
  proof (cases "c = CHR '',''")
    case True
    with Cons show ?thesis by auto
  next
    case False
    obtain piece pieces where sp: "split_comma cs = piece # pieces"
      using split_comma_nonempty [of cs] by (cases "split_comma cs") auto
    from Cons.prems False sp have "x = c # piece \<or> x \<in> set pieces" by simp
    then show ?thesis
    proof
      assume "x = c # piece"
      moreover have "set piece \<subseteq> set cs - {CHR '',''}" using Cons.IH [of piece] sp by simp
      ultimately show ?thesis using False by auto
    next
      assume "x \<in> set pieces"
      then have "set x \<subseteq> set cs - {CHR '',''}" using Cons.IH [of x] sp by simp
      then show ?thesis by auto
    qed
  qed
qed

lemma split_comma_covers:
  "c \<in> set p \<Longrightarrow> c \<noteq> CHR '','' \<Longrightarrow> \<exists>x\<in>set (split_comma p). c \<in> set x"
proof (induction p)
  case Nil
  then show ?case by simp
next
  case (Cons d ds)
  obtain piece pieces where sp: "split_comma ds = piece # pieces"
    using split_comma_nonempty [of ds] by (cases "split_comma ds") auto
  show ?case
  proof (cases "c = d")
    case True
    with Cons.prems sp show ?thesis by simp
  next
    case False
    with Cons have "\<exists>x\<in>set (split_comma ds). c \<in> set x" by simp
    with sp show ?thesis by (cases "d = CHR '',''") auto
  qed
qed

lemma trim_empty_iff: "trim s = [] \<longleftrightarrow> (\<forall>c\<in>set s. isSpace c)"
proof
  assume "trim s = []"
  then have "\<forall>c\<in>set (dropWhile isSpace s). isSpace c"
    by (simp add: trim_def)
  then have "dropWhile isSpace s = []"
    using hd_dropWhile [of isSpace s] by (cases "dropWhile isSpace s") auto
  then show "\<forall>c\<in>set s. isSpace c" by simp
next
  assume "\<forall>c\<in>set s. isSpace c"
  then have d: "dropWhile isSpace s = []" by simp
  show "trim s = []" unfolding trim_def d by simp
qed

lemma parseProducts_empty_iff:
  "parseProducts p = [] \<longleftrightarrow> (\<forall>c\<in>set p. c = CHR '','' \<or> isSpace c)"
proof
  assume e: "parseProducts p = []"
  show "\<forall>c\<in>set p. c = CHR '','' \<or> isSpace c"
  proof (intro ballI)
    fix c assume c: "c \<in> set p"
    show "c = CHR '','' \<or> isSpace c"
    proof (cases "c = CHR '',''")
      case False
      then obtain x where x: "x \<in> set (split_comma p)" "c \<in> set x"
        using split_comma_covers [OF c] by blast
      from e x(1) have "trim x = []"
        by (auto simp: parseProducts_def filter_empty_conv)
      with x(2) show ?thesis by (simp add: trim_empty_iff)
    qed simp
  qed
next
  assume a: "\<forall>c\<in>set p. c = CHR '','' \<or> isSpace c"
  have "trim x = []" if "x \<in> set (split_comma p)" for x
    using split_comma_chars [OF that] a by (auto simp: trim_empty_iff)
  then show "parseProducts p = []"
    by (auto simp: parseProducts_def filter_empty_conv)
qed


lemma loader_upsells_no_cart:
  assumes "or_null (q_shop q) = Some shop" and "or_null (q_products q) = None"
  shows "loader_upsells st q = json 200 cors (OffersBody [])"
  using assms by (simp add: loader_upsells_def)

lemma loader_upsells_blank_cart:
  assumes "or_null (q_shop q) = Some shop" and "q_products q = Some p"
    and "\<forall>c\<in>set p. c = CHR '','' \<or> isSpace c"
  shows "loader_upsells st q = json 200 cors (OffersBody [])"
proof (cases "p = []")
  case True
  with assms show ?thesis by (simp add: loader_upsells_def or_null_def)
next
  case False
  have "parseProducts p = []" using assms(3) by (simp add: parseProducts_empty_iff)
  with assms False show ?thesis by (simp add: loader_upsells_def or_null_def)
qed

lemma loader_upsells_unknown_shop:
  assumes "or_null (q_shop q) = Some shop" and "shop_findUnique st shop = Inr None"
  shows "loader_upsells st q = json 200 cors (OffersBody [])"
  using assms by (simp add: loader_upsells_def Let_def split: option.splits)

lemma loader_upsells_shop_error:
  assumes "or_null (q_shop q) = Some shop" and "q_products q = Some p" and "parseProducts p \<noteq> []"
    and "shop_findUnique st shop = Inl e"
  shows "loader_upsells st q = json 500 cors (OffersBody [])"
proof -
  have "p \<noteq> []" using assms(3) by (auto simp: parseProducts_empty_iff)
  with assms show ?thesis by (simp add: loader_upsells_def or_null_def)
qed

lemma loader_upsells_rules_error:
  assumes "or_null (q_shop q) = Some shop" and "q_products q = Some p" and "parseProducts p \<noteq> []"
    and "shop_findUnique st shop = Inr (Some shopRecord)"
    and "rule_findMany_enabled st (shop_id shopRecord) = Inl e"
  shows "loader_upsells st q = json 500 cors (OffersBody [])"
proof -
  have "p \<noteq> []" using assms(3) by (auto simp: parseProducts_empty_iff)
  with assms show ?thesis by (simp add: loader_upsells_def or_null_def)
qed

lemma loader_upsells_shape:
  assumes "or_null (q_shop q) = Some shop"
  shows "(\<exists>offers. body (loader_upsells st q) = OffersBody offers)
       \<and> (status (loader_upsells st q) = 200 \<or> status (loader_upsells st q) = 500)
       \<and> (status (loader_upsells st q) = 500 \<longrightarrow> body (loader_upsells st q) = OffersBody [])"
  using assms
  by (simp add: loader_upsells_def json_def Let_def split: option.splits sum.splits)

lemma loader_upsells_collections_shape:
  assumes "or_null (q_shop q) = Some shop"
  shows "(\<exists>offers. body (loader_upsells_collections fc st q) = OffersBody offers)
       \<and> (status (loader_upsells_collections fc st q) = 200
            \<or> status (loader_upsells_collections fc st q) = 500)
       \<and> (status (loader_upsells_collections fc st q) = 500
            \<longrightarrow> body (loader_upsells_collections fc st q) = OffersBody [])"
  using assms
  by (simp add: loader_upsells_collections_def json_def Let_def split: option.splits sum.splits)

text \<open>
  C9. A \<^verbatim>\<open>GET /upsells\<close> request that names a shop is answered \<open>{offers: []}\<close> with
  status 200 when the products parameter is missing, empty or made of blank ids only, and
  when the shop is unknown; it is answered \<open>{offers: []}\<close> with status 500 when the shop
  lookup or the rule query throws. Its body is always an offers list, never an error
  object, and its status is 200 or 500.
\<close>

theorem upsells_graceful_degradation:
  assumes shop: "q_shop q = Some shop" "shop \<noteq> []"
  shows "(q_products q = None \<or> q_products q = Some [] \<longrightarrow>
            loader_upsells st q = json 200 cors (OffersBody []))
       \<and> (\<forall>p. q_products q = Some p \<and> (\<forall>c\<in>set p. c = CHR '','' \<or> isSpace c) \<longrightarrow>
            loader_upsells st q = json 200 cors (OffersBody []))
       \<and> (shop_findUnique st shop = Inr None \<longrightarrow>
            loader_upsells st q = json 200 cors (OffersBody []))
       \<and> (\<forall>p e. q_products q = Some p \<and> parseProducts p \<noteq> []
              \<and> shop_findUnique st shop = Inl e \<longrightarrow>
            loader_upsells st q = json 500 cors (OffersBody []))
       \<and> (\<forall>p shopRecord e. q_products q = Some p \<and> parseProducts p \<noteq> []
              \<and> shop_findUnique st shop = Inr (Some shopRecord)
              \<and> rule_findMany_enabled st (shop_id shopRecord) = Inl e \<longrightarrow>
            loader_upsells st q = json 500 cors (OffersBody []))
       \<and> (\<exists>offers. body (loader_upsells st q) = OffersBody offers)
       \<and> (status (loader_upsells st q) = 200 \<or> status (loader_upsells st q) = 500)
       \<and> (status (loader_upsells st q) = 500 \<longrightarrow> body (loader_upsells st q) = OffersBody [])"
proof -
  have s: "or_null (q_shop q) = Some shop" using shop by (simp add: or_null_def)
  have a: "q_products q = None \<or> q_products q = Some [] \<longrightarrow>
            loader_upsells st q = json 200 cors (OffersBody [])"
    using loader_upsells_no_cart [OF s, of st] by (auto simp: or_null_def)
  have b: "\<forall>p. q_products q = Some p \<and> (\<forall>c\<in>set p. c = CHR '','' \<or> isSpace c) \<longrightarrow>
            loader_upsells st q = json 200 cors (OffersBody [])"
    using loader_upsells_blank_cart [OF s] by blast
  have c: "shop_findUnique st shop = Inr None \<longrightarrow>
            loader_upsells st q = json 200 cors (OffersBody [])"
    using loader_upsells_unknown_shop [OF s] by blast
  have d: "\<forall>p e. q_products q = Some p \<and> parseProducts p \<noteq> []
              \<and> shop_findUnique st shop = Inl e \<longrightarrow>
            loader_upsells st q = json 500 cors (OffersBody [])"
    using loader_upsells_shop_error [OF s] by blast
  have e: "\<forall>p shopRecord e. q_products q = Some p \<and> parseProducts p \<noteq> []
              \<and> shop_findUnique st shop = Inr (Some shopRecord)
              \<and> rule_findMany_enabled st (shop_id shopRecord) = Inl e \<longrightarrow>
            loader_upsells st q = json 500 cors (OffersBody [])"
    using loader_upsells_rules_error [OF s] by blast
  from a b c d e loader_upsells_shape [OF s, of st] show ?thesis by blast
qed


lemma example_cart_parse:
  "parseProducts ''101, 103'' = [''101'', ''103'']"
  "parseProducts '' , ,'' = []"
  by code_simp+

lemma example_lookups:
  "shop_findUnique exampleStore ''other.myshopify.com'' = Inr None"
  "shop_findUnique (failingStore ShopFindUnique) ''demo.myshopify.com'' = Inl PrismaError"
  "shop_findUnique (failingStore RuleFindMany) ''demo.myshopify.com'' = Inr (Some exampleShop)"
  "rule_findMany_enabled (failingStore RuleFindMany) (shop_id exampleShop) = Inl PrismaError"
  by (simp_all add: shop_findUnique_def rule_findMany_enabled_def failingStore_def
        exampleStore_def exampleShop_def)

theorem upsells_graceful_degradation_witness:
  "loader_upsells exampleStore (upsellsQuery (Some ''demo.myshopify.com'') (Some []))
     = json 200 cors (OffersBody [])
   \<and> loader_upsells exampleStore (upsellsQuery (Some ''demo.myshopify.com'') (Some '' , ,''))
     = json 200 cors (OffersBody [])
   \<and> loader_upsells exampleStore (upsellsQuery (Some ''other.myshopify.com'') (Some ''101, 103''))
     = json 200 cors (OffersBody [])
   \<and> loader_upsells (failingStore ShopFindUnique)
         (upsellsQuery (Some ''demo.myshopify.com'') (Some ''101, 103''))
     = json 500 cors (OffersBody [])
   \<and> loader_upsells (failingStore RuleFindMany)
         (upsellsQuery (Some ''demo.myshopify.com'') (Some ''101, 103''))
     = json 500 cors (OffersBody [])"
proof -
  have n: "''demo.myshopify.com'' \<noteq> []" "''other.myshopify.com'' \<noteq> []" by simp_all
  have blank: "\<forall>c\<in>set '' , ,''. c = CHR '','' \<or> isSpace c" by (simp add: isSpace_def)
  have cart: "parseProducts ''101, 103'' \<noteq> []" by (simp add: example_cart_parse)
  have q: "q_shop (upsellsQuery s p) = s" "q_products (upsellsQuery s p) = p" for s p
    by (simp_all add: upsellsQuery_def)
  from upsells_graceful_degradation [OF q(1) n(1), of "Some []" exampleStore] q(2)
  have a: "loader_upsells exampleStore (upsellsQuery (Some ''demo.myshopify.com'') (Some []))
     = json 200 cors (OffersBody [])" by simp
  from upsells_graceful_degradation [OF q(1) n(1), of "Some '' , ,''" exampleStore] q(2) blank
  have b: "loader_upsells exampleStore (upsellsQuery (Some ''demo.myshopify.com'') (Some '' , ,''))
     = json 200 cors (OffersBody [])" by blast
  from upsells_graceful_degradation [OF q(1) n(2), of "Some ''101, 103''" exampleStore]
    example_lookups(1)
  have c: "loader_upsells exampleStore (upsellsQuery (Some ''other.myshopify.com'') (Some ''101, 103''))
     = json 200 cors (OffersBody [])" by blast
  from upsells_graceful_degradation [OF q(1) n(1), of "Some ''101, 103''" "failingStore ShopFindUnique"]
    q(2) cart example_lookups(2)
  have d: "loader_upsells (failingStore ShopFindUnique)
         (upsellsQuery (Some ''demo.myshopify.com'') (Some ''101, 103''))
     = json 500 cors (OffersBody [])" by blast
  from upsells_graceful_degradation [OF q(1) n(1), of "Some ''101, 103''" "failingStore RuleFindMany"]
    q(2) cart example_lookups(3,4)
  have e: "loader_upsells (failingStore RuleFindMany)
         (upsellsQuery (Some ''demo.myshopify.com'') (Some ''101, 103''))
     = json 500 cors (OffersBody [])" by blast
  from a b c d e show ?thesis by blast
qed

lemma loader_missing_shop:
  "\<not> truthy (q_shop q) \<Longrightarrow>
     loader_upsells st q = json 400 cors (ErrorBody ''Missing shop parameter'')"
  "\<not> truthy (q_shop q) \<Longrightarrow>
     loader_upsells_collections fc st q = json 400 cors (ErrorBody ''Missing shop parameter'')"
  "\<not> truthy shop \<Longrightarrow>
     loader_shipping st shop = json 400 cors (ErrorBody ''Missing shop parameter'')"
  by (simp_all add: loader_upsells_def loader_upsells_collections_def loader_shipping_def
        or_null_None_iff [symmetric])

lemma truthy_or_null: "truthy s \<Longrightarrow> \<exists>v. or_null s = Some v"
  by (cases "or_null s") (simp_all add: or_null_None_iff)

lemma loader_shipping_status:
  assumes "truthy shop"
  shows "status (loader_shipping st shop) = 200 \<or> status (loader_shipping st shop) = 500"
proof -
  from assms obtain v where "or_null shop = Some v" using truthy_or_null by blast
  then show ?thesis
    by (simp add: loader_shipping_def json_def split: option.splits sum.splits)
qed

text \<open>
  C10. When the shop parameter is absent (or empty), \<^verbatim>\<open>GET /upsells\<close> (either loader)
  and \<^verbatim>\<open>GET /shipping\<close> answer status 400 with the body
  \<open>{error: "Missing shop parameter"}\<close>; with a shop parameter their status is 200 or 500,
  so the missing shop is the only request of these endpoints answered with a 4xx.
\<close>

theorem missing_shop_is_bad_request:
  "(\<not> truthy (q_shop q) \<longrightarrow>
      loader_upsells st q = json 400 cors (ErrorBody ''Missing shop parameter'')
      \<and> loader_upsells_collections fc st q = json 400 cors (ErrorBody ''Missing shop parameter''))
   \<and> (\<not> truthy shop \<longrightarrow>
      loader_shipping st shop = json 400 cors (ErrorBody ''Missing shop parameter''))
   \<and> status (json 400 cors (ErrorBody ''Missing shop parameter'')) = 400
   \<and> (truthy (q_shop q) \<longrightarrow>
        (status (loader_upsells st q) = 200 \<or> status (loader_upsells st q) = 500)
        \<and> (status (loader_upsells_collections fc st q) = 200
             \<or> status (loader_upsells_collections fc st q) = 500))
   \<and> (truthy shop \<longrightarrow>
        status (loader_shipping st shop) = 200 \<or> status (loader_shipping st shop) = 500)"
proof (intro conjI impI)
  assume t: "truthy (q_shop q)"
  then obtain v where v: "or_null (q_shop q) = Some v" using truthy_or_null by blast
  show "status (loader_upsells st q) = 200 \<or> status (loader_upsells st q) = 500"
    using loader_upsells_shape [OF v, of st] by blast
  show "status (loader_upsells_collections fc st q) = 200
             \<or> status (loader_upsells_collections fc st q) = 500"
    using loader_upsells_collections_shape [OF v, of fc st] by blast
qed (simp_all add: loader_missing_shop loader_shipping_status json_def)

theorem missing_shop_is_bad_request_witness:
  "loader_upsells exampleStore (upsellsQuery None (Some ''101, 103''))
     = json 400 cors (ErrorBody ''Missing shop parameter'')
   \<and> loader_upsells exampleStore (upsellsQuery (Some []) (Some ''101, 103''))
     = json 400 cors (ErrorBody ''Missing shop parameter'')
   \<and> loader_upsells_collections (\<lambda>shop token. exampleCollections) exampleStore
        (upsellsQuery None (Some ''101, 103''))
     = json 400 cors (ErrorBody ''Missing shop parameter'')
   \<and> loader_shipping exampleStore None = json 400 cors (ErrorBody ''Missing shop parameter'')
   \<and> status (loader_shipping exampleStore None) = 400
   \<and> status (loader_shipping exampleStore (Some ''demo.myshopify.com'')) = 200
   \<and> status (loader_upsells exampleStore (upsellsQuery (Some ''demo.myshopify.com'') (Some ''101, 103''))) = 200"
proof -
  have f: "\<not> truthy None" "\<not> truthy (Some [])" "truthy (Some ''demo.myshopify.com'')"
    by (simp_all add: truthy_def)
  have q: "q_shop (upsellsQuery s p) = s" for s p by (simp add: upsellsQuery_def)
  have ok: "status (loader_shipping exampleStore (Some ''demo.myshopify.com'')) = 200"
    by (simp add: loader_shipping_def or_null_def shop_findUnique_def exampleStore_def
          exampleShop_def json_def)
  have ok2: "status (loader_upsells exampleStore
        (upsellsQuery (Some ''demo.myshopify.com'') (Some ''101, 103''))) = 200"
    by (simp add: loader_upsells_def upsellsQuery_def or_null_def example_cart_parse
          shop_findUnique_def rule_findMany_enabled_def exampleStore_def exampleShop_def json_def)
  show ?thesis
    using missing_shop_is_bad_request [of "upsellsQuery None (Some ''101, 103'')" exampleStore
        "\<lambda>shop token. exampleCollections" None]
      missing_shop_is_bad_request [of "upsellsQuery (Some []) (Some ''101, 103'')" exampleStore
        "\<lambda>shop token. exampleCollections" "Some ''demo.myshopify.com''"]
    by (simp add: q f ok ok2 json_def)
qed

subsection \<open>Current plan and the rule-creation check\<close>

lemma hasActivePaidSubscription_iff:
  "hasActivePaidSubscription pf subscription \<longleftrightarrow>
     (\<exists>sub items. subscription = Some sub \<and> sub_status sub = ''ACTIVE''
        \<and> sub_lineItems sub = Some items
        \<and> (\<exists>item\<in>set items. \<exists>price. li_amount item = Some price \<and> price \<noteq> [] \<and> pf price > 0))"
  by (auto simp: hasActivePaidSubscription_def list_ex_iff or_null_def
        split: option.splits if_splits)

lemma getCurrentPlan_cases:
  "getCurrentPlan pf subscription = PRO \<longleftrightarrow> hasActivePaidSubscription pf subscription"
  "getCurrentPlan pf subscription = FREE \<longleftrightarrow> \<not> hasActivePaidSubscription pf subscription"
  "getCurrentPlan pf subscription \<noteq> STARTER"
  by (simp_all add: getCurrentPlan_def)

lemma planGateRejects_iff:
  "planGateRejects admin st shopRecord form \<longleftrightarrow>
     currentPlan shopRecord = FREE \<and> length (enabledRules st shopRecord) \<ge> 1
       \<and> f_isEnabled form = Some ''true''"
  by (simp add: planGateRejects_def validateNewRule_def Let_def)

lemma validateNewRule_admin:
  "validateNewRule admin st shopRecord form = validateNewRule admin' st shopRecord form"
  by (simp add: validateNewRule_def)

lemma newRuleAction_admin:
  "newRuleAction admin st shop form = newRuleAction admin' st shop form"
  unfolding newRuleAction_def validateNewRule_admin [of admin _ _ _ admin'] ..

text \<open>
  C7 (as amended). \<open>getCurrentPlan\<close> gives PRO exactly for a subscription whose status is
  \<^verbatim>\<open>ACTIVE\<close> and one of whose line items has a price amount that parses to a positive
  number, and FREE otherwise. The plan check of rule creation reads the shop record's
  stored \<open>currentPlan\<close>: it refuses exactly when the stored plan is FREE, the shop has an
  enabled rule and the new rule is enabled (the loader's \<open>canCreateRule\<close> likewise), and its
  outcome is the same whatever the billing collaborator's live state is.
\<close>

theorem plan_from_subscription_and_stored_gate:
  "(getCurrentPlan pf subscription = PRO \<longleftrightarrow>
      (\<exists>sub items. subscription = Some sub \<and> sub_status sub = ''ACTIVE''
        \<and> sub_lineItems sub = Some items
        \<and> (\<exists>item\<in>set items. \<exists>price. li_amount item = Some price \<and> price \<noteq> [] \<and> pf price > 0)))
   \<and> (getCurrentPlan pf subscription \<noteq> PRO \<longrightarrow> getCurrentPlan pf subscription = FREE)
   \<and> (planGateRejects admin st shopRecord form \<longleftrightarrow>
        currentPlan shopRecord = FREE \<and> length (enabledRules st shopRecord) \<ge> 1
          \<and> f_isEnabled form = Some ''true'')
   \<and> (canCreateRule st shopRecord \<longleftrightarrow>
        currentPlan shopRecord \<noteq> FREE \<or> enabledRules st shopRecord = [])
   \<and> planGateRejects admin st shopRecord form = planGateRejects admin' st shopRecord form
   \<and> newRuleAction admin st shop form = newRuleAction admin' st shop form"
proof -
  have a: "getCurrentPlan pf subscription = PRO \<longleftrightarrow>
      (\<exists>sub items. subscription = Some sub \<and> sub_status sub = ''ACTIVE''
        \<and> sub_lineItems sub = Some items
        \<and> (\<exists>item\<in>set items. \<exists>price. li_amount item = Some price \<and> price \<noteq> [] \<and> pf price > 0))"
    unfolding getCurrentPlan_cases(1) by (rule hasActivePaidSubscription_iff)
  have b: "getCurrentPlan pf subscription \<noteq> PRO \<longrightarrow> getCurrentPlan pf subscription = FREE"
    by (simp add: getCurrentPlan_def)
  have c: "canCreateRule st shopRecord \<longleftrightarrow>
        currentPlan shopRecord \<noteq> FREE \<or> enabledRules st shopRecord = []"
    by (auto simp: canCreateRule_def)
  have d: "planGateRejects admin st shopRecord form = planGateRejects admin' st shopRecord form"
    by (simp add: planGateRejects_iff)
  from a b c d planGateRejects_iff [of admin st shopRecord form]
    newRuleAction_admin [of admin st shop form admin']
  show ?thesis by blast
qed

lemma example_gate_facts:
  "shop_findUnique (storeWithPlan p) ''demo.myshopify.com'' = Inr (Some (exampleShop \<lparr> currentPlan := p \<rparr>))"
  "enabledRules (storeWithPlan p) (exampleShop \<lparr> currentPlan := p \<rparr>) = [ruleA, ruleB, ruleC]"
  by (simp_all add: storeWithPlan_def exampleStore_def exampleShop_def shop_findUnique_def
        enabledRules_def ruleA_def ruleB_def ruleC_def)

lemma example_form_plan_only:
  "validateNewRule admin (storeWithPlan p) (exampleShop \<lparr> currentPlan := p \<rparr>) exampleForm =
     \<lparr> err_name = None, err_triggerType = None, err_triggerProductId = None,
       err_triggerCollectionId = None, err_upsellProductId = None,
       err_plan = (if p = FREE
                   then Some ''Free plan allows only 1 active rule. Upgrade to create more.''
                   else None) \<rparr>"
  by (simp add: validateNewRule_def Let_def example_gate_facts exampleForm_def or_null_def
        truthy_def trim_def isSpace_def)

theorem plan_from_subscription_and_stored_gate_witness:
  "getCurrentPlan exampleParseFloat (Some paidSubscription) = PRO
   \<and> getCurrentPlan exampleParseFloat None = FREE
   \<and> planGateRejects \<lparr> activeSubscriptions = [paidSubscription] \<rparr> (storeWithPlan FREE)
        (exampleShop \<lparr> currentPlan := FREE \<rparr>) exampleForm
   \<and> \<not> planGateRejects \<lparr> activeSubscriptions = [] \<rparr> (storeWithPlan PRO)
        (exampleShop \<lparr> currentPlan := PRO \<rparr>) exampleForm
   \<and> \<not> canCreateRule (storeWithPlan FREE) (exampleShop \<lparr> currentPlan := FREE \<rparr>)"
proof -
  have amount: "(0::rat) < fl (999 / 100)" by code_simp
  have paid: "\<exists>sub items. Some paidSubscription = Some sub \<and> sub_status sub = ''ACTIVE''
        \<and> sub_lineItems sub = Some items
        \<and> (\<exists>item\<in>set items. \<exists>price. li_amount item = Some price \<and> price \<noteq> []
              \<and> exampleParseFloat price > 0)"
    using amount by (simp add: paidSubscription_def exampleParseFloat_def)
  from plan_from_subscription_and_stored_gate [of exampleParseFloat "Some paidSubscription"] paid
  have a: "getCurrentPlan exampleParseFloat (Some paidSubscription) = PRO" by blast
  from plan_from_subscription_and_stored_gate [of exampleParseFloat None]
  have b: "getCurrentPlan exampleParseFloat None = FREE" by simp
  from plan_from_subscription_and_stored_gate [of _ _ "\<lparr> activeSubscriptions = [paidSubscription] \<rparr>"
      "storeWithPlan FREE" "exampleShop \<lparr> currentPlan := FREE \<rparr>" exampleForm]
  have c: "planGateRejects \<lparr> activeSubscriptions = [paidSubscription] \<rparr> (storeWithPlan FREE)
        (exampleShop \<lparr> currentPlan := FREE \<rparr>) exampleForm"
    "\<not> canCreateRule (storeWithPlan FREE) (exampleShop \<lparr> currentPlan := FREE \<rparr>)"
    by (simp_all add: example_gate_facts exampleForm_def)
  from plan_from_subscription_and_stored_gate [of _ _ "\<lparr> activeSubscriptions = [] \<rparr>"
      "storeWithPlan PRO" "exampleShop \<lparr> currentPlan := PRO \<rparr>" exampleForm]
  have d: "\<not> planGateRejects \<lparr> activeSubscriptions = [] \<rparr> (storeWithPlan PRO)
        (exampleShop \<lparr> currentPlan := PRO \<rparr>) exampleForm"
    by simp
  from a b c d show ?thesis by blast
qed

text \<open>
  C7 as stated fails: with the same live subscription (a paid, active one, for which
  \<open>getCurrentPlan\<close> says PRO), two stores that differ only in the stored plan of the shop
  row get different answers from the rule-creation action.
\<close>

theorem gate_reads_stored_plan_counterexample:
  "getCurrentPlan exampleParseFloat (getCurrentSubscription \<lparr> activeSubscriptions = [paidSubscription] \<rparr>) = PRO
   \<and> newRuleAction \<lparr> activeSubscriptions = [paidSubscription] \<rparr> (storeWithPlan FREE)
        ''demo.myshopify.com'' exampleForm
      = Inr (Rejected \<lparr> err_name = None, err_triggerType = None, err_triggerProductId = None,
           err_triggerCollectionId = None, err_upsellProductId = None,
           err_plan = Some ''Free plan allows only 1 active rule. Upgrade to create more.'' \<rparr>)
   \<and> newRuleAction \<lparr> activeSubscriptions = [paidSubscription] \<rparr> (storeWithPlan PRO)
        ''demo.myshopify.com'' exampleForm
      = Inr Proceeds
   \<and> storeWithPlan PRO = (storeWithPlan FREE)
        \<lparr> shopTable := map (\<lambda>s. s \<lparr> currentPlan := PRO \<rparr>) (shopTable (storeWithPlan FREE)) \<rparr>"
proof -
  have amount: "(0::rat) < fl (999 / 100)" by code_simp
  have live: "getCurrentPlan exampleParseFloat
      (getCurrentSubscription \<lparr> activeSubscriptions = [paidSubscription] \<rparr>) = PRO"
    using amount
    by (simp add: getCurrentPlan_def getCurrentSubscription_def hasActivePaidSubscription_def
          paidSubscription_def or_null_def exampleParseFloat_def)
  have acts: "newRuleAction admin (storeWithPlan p) ''demo.myshopify.com'' exampleForm =
     (if p = FREE
      then Inr (Rejected \<lparr> err_name = None, err_triggerType = None, err_triggerProductId = None,
           err_triggerCollectionId = None, err_upsellProductId = None,
           err_plan = Some ''Free plan allows only 1 active rule. Upgrade to create more.'' \<rparr>)
      else Inr Proceeds)" for admin p
    by (simp add: newRuleAction_def example_gate_facts example_form_plan_only hasErrors_def)
  have stores: "storeWithPlan PRO = (storeWithPlan FREE)
        \<lparr> shopTable := map (\<lambda>s. s \<lparr> currentPlan := PRO \<rparr>) (shopTable (storeWithPlan FREE)) \<rparr>"
    by (simp add: storeWithPlan_def)
  from live acts [of _ FREE] acts [of _ PRO] stores show ?thesis by simp
qed

end
